theory Spec2Isabelle
  imports Main "HOL-Library.Word" "HOL-Library.AList"
begin

unbundle bit_operations_syntax

section \<open>Broddy: asset path allocation, reference rewriting and the crawl\<close>

text \<open>
  The development follows \<^verbatim>\<open>src/index.js\<close>, the version of \<^verbatim>\<open>broddy\<close> that keeps
  \<^verbatim>\<open>filePathMap\<close> and \<^verbatim>\<open>usedPaths\<close> (path allocation with collision handling,
  \<^verbatim>\<open>getRelativePath\<close>, \<^verbatim>\<open>rewriteUrls\<close>). JavaScript strings are modelled as
  \<^typ>\<open>string\<close>; a thrown exception is a value \<open>Inl e\<close> of a sum type.
\<close>

subsection \<open>JavaScript values the code relies on\<close>

datatype error = TypeError | FetchError | HttpError | SyntaxError | IOError

text \<open>
  The result of \<^verbatim>\<open>new URL(ref, base)\<close>: the fields the program reads. The WHATWG
  parser itself is a parameter of the model (\<open>None\<close> is the thrown \<^verbatim>\<open>TypeError\<close>).
\<close>

record parsed_url =
  href :: string
  origin :: string
  pathname :: string
  search :: string

type_synonym url_ctor = "string \<Rightarrow> string option \<Rightarrow> parsed_url option"

definition startsWith :: "string \<Rightarrow> string \<Rightarrow> bool" where
  "startsWith s p = (take (length p) s = p)"

definition endsWith :: "string \<Rightarrow> string \<Rightarrow> bool" where
  "endsWith s p = (length p \<le> length s \<and> drop (length s - length p) s = p)"

text \<open>\<^verbatim>\<open>s.slice(0, -n)\<close>; for \<open>n = 0\<close> the end index is \<open>-0 = 0\<close> and the result is empty.\<close>

definition slice0_neg :: "string \<Rightarrow> nat \<Rightarrow> string" where
  "slice0_neg s n = (if n = 0 then [] else take (length s - n) s)"

text \<open>\<^verbatim>\<open>Number.prototype.toString(radix)\<close> on a non-negative integer.\<close>

definition digit_char :: "nat \<Rightarrow> char" where
  "digit_char d = ''0123456789abcdefghijklmnopqrstuvwxyz'' ! d"

function radix_digits :: "nat \<Rightarrow> nat \<Rightarrow> nat list" where
  "radix_digits b n = (if b < 2 \<or> n < b then [n] else radix_digits b (n div b) @ [n mod b])"
  by pat_completeness auto
termination
  by (relation "measure snd") auto

declare radix_digits.simps [simp del]

definition toString :: "nat \<Rightarrow> nat \<Rightarrow> string" where
  "toString radix n = map digit_char (radix_digits radix n)"

text \<open>
  The query-string hash of \<^verbatim>\<open>assetPath\<close>:
  \<^verbatim>\<open>hash = (hash << 5) - hash + char; hash = hash & hash\<close> on 32-bit integers.
\<close>

definition hash_step :: "32 word \<Rightarrow> char \<Rightarrow> 32 word" where
  "hash_step hash c = (let h = push_bit 5 hash - hash + of_nat (of_char c) in h AND h)"

definition search_hash :: "string \<Rightarrow> 32 word" where
  "search_hash s = foldl hash_step 0 s"

definition abs_hash_36 :: "string \<Rightarrow> string" where
  "abs_hash_36 s = toString 36 (nat \<bar>sint (search_hash s)\<bar>)"

subsection \<open>Node's posix \<^verbatim>\<open>path\<close> module\<close>

text \<open>
  \<^verbatim>\<open>path.extname\<close>: trailing separators are skipped, the last component is taken, and
  the extension runs from its last dot, unless there is no dot, the dot is the first
  character of the component, or the component is \<^verbatim>\<open>..\<close>.
\<close>

definition is_slash :: "char \<Rightarrow> bool" where
  "is_slash c = (c = CHR ''/'')"

definition strip_trailing :: "string \<Rightarrow> string" where
  "strip_trailing p = rev (dropWhile is_slash (rev p))"

definition last_component :: "string \<Rightarrow> string" where
  "last_component p = rev (takeWhile (\<lambda>c. \<not> is_slash c) (rev (strip_trailing p)))"

definition extname :: "string \<Rightarrow> string" where
  "extname p =
     (let comp = last_component p in
      if CHR ''.'' \<notin> set comp then []
      else let e = rev (takeWhile (\<lambda>c. c \<noteq> CHR ''.'') (rev comp)) in
           if length comp = Suc (length e) then []
           else if comp = ''..'' then []
           else CHR ''.'' # e)"

text \<open>
  Paths as lists of segments. \<^verbatim>\<open>normalizeString\<close> drops empty and \<^verbatim>\<open>.\<close> segments and lets
  \<^verbatim>\<open>..\<close> remove the segment before it; above the root it is kept only when
  \<open>allowAboveRoot\<close> holds.
\<close>

fun split_on :: "char \<Rightarrow> string \<Rightarrow> string list" where
  "split_on sep [] = [[]]"
| "split_on sep (c # cs) =
     (if c = sep then [] # split_on sep cs
      else (case split_on sep cs of [] \<Rightarrow> [[c]] | s # ss \<Rightarrow> (c # s) # ss))"

fun join_with :: "string \<Rightarrow> string list \<Rightarrow> string" where
  "join_with sep [] = []"
| "join_with sep [s] = s"
| "join_with sep (s # t # ss) = s @ sep @ join_with sep (t # ss)"

definition segments :: "string \<Rightarrow> string list" where
  "segments p = split_on CHR ''/'' p"

definition is_absolute :: "string \<Rightarrow> bool" where
  "is_absolute p = (case p of [] \<Rightarrow> False | c # _ \<Rightarrow> is_slash c)"

fun normalizeString :: "bool \<Rightarrow> string list \<Rightarrow> string list \<Rightarrow> string list" where
  "normalizeString allowAboveRoot res [] = res"
| "normalizeString allowAboveRoot res (s # ss) =
     (if s = [] \<or> s = ''.'' then normalizeString allowAboveRoot res ss
      else if s = ''..'' then
        (if res \<noteq> [] \<and> last res \<noteq> ''..'' then normalizeString allowAboveRoot (butlast res) ss
         else if allowAboveRoot then normalizeString allowAboveRoot (res @ [''..'']) ss
         else normalizeString allowAboveRoot res ss)
      else normalizeString allowAboveRoot (res @ [s]) ss)"

text \<open>
  \<^verbatim>\<open>path.resolve(...paths)\<close> against the working directory \<open>cwd\<close> (an absolute path): the
  segments from the last absolute argument on, normalised.
\<close>

definition resolve_segs :: "string \<Rightarrow> string list \<Rightarrow> string list" where
  "resolve_segs cwd ps =
     normalizeString False []
       (foldl (\<lambda>acc p. if is_absolute p then segments p else acc @ segments p) (segments cwd) ps)"

definition resolve :: "string \<Rightarrow> string list \<Rightarrow> string" where
  "resolve cwd ps = ''/'' @ join_with ''/'' (resolve_segs cwd ps)"

fun strip_common :: "string list \<Rightarrow> string list \<Rightarrow> string list \<times> string list" where
  "strip_common (a # as) (b # bs) = (if a = b then strip_common as bs else (a # as, b # bs))"
| "strip_common as bs = (as, bs)"

text \<open>
  \<^verbatim>\<open>path.relative(from, to)\<close>: both arguments are resolved, the common leading segments
  are dropped, and one \<^verbatim>\<open>..\<close> per remaining segment of \<open>from\<close> precedes the rest of \<open>to\<close>.
\<close>

definition relative :: "string \<Rightarrow> string \<Rightarrow> string \<Rightarrow> string" where
  "relative cwd from to =
     (if from = to then []
      else case strip_common (resolve_segs cwd [from]) (resolve_segs cwd [to]) of
             (f, t) \<Rightarrow> join_with ''/'' (replicate (length f) ''..'' @ t))"

text \<open>
  \<^verbatim>\<open>path.dirname\<close>: the text before the separator that precedes the last component
  (separators at index 0 do not count); \<^verbatim>\<open>/\<close> or \<^verbatim>\<open>.\<close> when there is none.
\<close>

definition dirname :: "string \<Rightarrow> string" where
  "dirname p =
     (case p of
        [] \<Rightarrow> ''.''
      | c # body \<Rightarrow>
          let r = dropWhile (\<lambda>c. \<not> is_slash c) (dropWhile is_slash (rev body)) in
          if r = [] then (if is_slash c then ''/'' else ''.'')
          else if is_slash c \<and> length r = 1 then ''//''
          else c # rev (tl r))"

definition basename :: "string \<Rightarrow> string" where
  "basename p = last_component p"

definition normalize :: "string \<Rightarrow> string" where
  "normalize p =
     (if p = [] then ''.''
      else
        let isAbsolute = is_absolute p;
            trailingSeparator = is_slash (last p);
            q = join_with ''/'' (normalizeString (\<not> isAbsolute) [] (segments p))
        in if q = [] then (if isAbsolute then ''/'' else if trailingSeparator then ''./'' else ''.'')
           else (if isAbsolute then ''/'' else []) @ q @ (if trailingSeparator then ''/'' else []))"

definition path_join :: "string list \<Rightarrow> string" where
  "path_join ps =
     (let joined = join_with ''/'' (filter (\<lambda>p. p \<noteq> []) ps)
      in if joined = [] then ''.'' else normalize joined)"

subsection \<open>The path allocator \<^verbatim>\<open>assetPath\<close>\<close>

record alloc =
  filePathMap :: "string \<rightharpoonup> string"
  usedPaths :: "string list"

definition alloc_init :: alloc where
  "alloc_init = \<lparr>filePathMap = Map.empty, usedPaths = []\<rparr>"

definition suffixed :: "string \<Rightarrow> string \<Rightarrow> nat \<Rightarrow> string" where
  "suffixed nameWithoutExt ext counter = nameWithoutExt @ ''-'' @ toString 10 counter @ ext"

text \<open>
  The \<^verbatim>\<open>while (usedPaths.has(newPath))\<close> loop, entered with \<open>counter = 1\<close>.
\<close>

function collision_loop :: "string list \<Rightarrow> string \<Rightarrow> string \<Rightarrow> nat \<Rightarrow> string" where
  "collision_loop used nameWithoutExt ext counter =
     (if suffixed nameWithoutExt ext counter \<in> set used
      then collision_loop used nameWithoutExt ext (counter + 1)
      else suffixed nameWithoutExt ext counter)"
  by pat_completeness auto

lemma radix_digits_lt: "2 \<le> b \<Longrightarrow> d \<in> set (radix_digits b n) \<Longrightarrow> d < b"
proof (induction b n rule: radix_digits.induct)
  case (1 b n)
  show ?case
  proof (cases "n < b")
    case True
    with "1.prems" show ?thesis by (simp add: radix_digits.simps [of b n])
  next
    case False
    with "1.prems" have "d \<in> set (radix_digits b (n div b)) \<or> d = n mod b"
      by (auto simp add: radix_digits.simps [of b n])
    with "1.IH" "1.prems" False show ?thesis by auto
  qed
qed

definition digits_value :: "nat \<Rightarrow> nat list \<Rightarrow> nat" where
  "digits_value b ds = foldl (\<lambda>a d. a * b + d) 0 ds"

lemma radix_digits_value: "2 \<le> b \<Longrightarrow> digits_value b (radix_digits b n) = n"
proof (induction b n rule: radix_digits.induct)
  case (1 b n)
  show ?case
  proof (cases "n < b")
    case True
    with "1.prems" show ?thesis by (simp add: radix_digits.simps [of b n] digits_value_def)
  next
    case False
    with "1.prems" "1.IH" have "digits_value b (radix_digits b (n div b)) = n div b" by simp
    with False "1.prems" show ?thesis
      by (simp add: radix_digits.simps [of b n] digits_value_def)
  qed
qed

lemma digit_char_inj: "i < 36 \<Longrightarrow> j < 36 \<Longrightarrow> digit_char i = digit_char j \<Longrightarrow> i = j"
proof -
  have d: "distinct ''0123456789abcdefghijklmnopqrstuvwxyz''" by simp
  have l: "length ''0123456789abcdefghijklmnopqrstuvwxyz'' = 36" by simp
  show "i < 36 \<Longrightarrow> j < 36 \<Longrightarrow> digit_char i = digit_char j \<Longrightarrow> i = j"
    unfolding digit_char_def using nth_eq_iff_index_eq [OF d, of i j] l by metis
qed

lemma toString_inj:
  assumes b: "2 \<le> b" "b \<le> 36" and eq: "toString b m = toString b n"
  shows "m = n"
proof -
  have "inj_on digit_char (set (radix_digits b m) \<union> set (radix_digits b n))"
    using radix_digits_lt [OF b(1)] b(2)
    by (intro inj_onI digit_char_inj) force+
  with eq have "radix_digits b m = radix_digits b n"
    unfolding toString_def by (rule map_inj_on)
  then have "digits_value b (radix_digits b m) = digits_value b (radix_digits b n)" by simp
  with b(1) show ?thesis by (simp add: radix_digits_value)
qed

lemma suffixed_inj: "suffixed nm ext j = suffixed nm ext k \<Longrightarrow> j = k"
  unfolding suffixed_def by (auto dest: toString_inj [rotated 2])

lemma finite_suffixed: "finite {k. suffixed nm ext k \<in> set used}"
proof -
  have "inj (suffixed nm ext)" by (rule injI) (rule suffixed_inj)
  then have "finite (suffixed nm ext -` set used)" by (intro finite_vimageI) simp_all
  then show ?thesis by (simp add: vimage_def)
qed

text \<open>
  The loop ends: the suffixed names are pairwise different, so only finitely many
  counters can name a used path.
\<close>

termination collision_loop
proof (relation "measure (\<lambda>(used, nm, ext, c). card {k. c \<le> k \<and> suffixed nm ext k \<in> set used})")
  show "wf (measure (\<lambda>(used, nm, ext, c). card {k. c \<le> k \<and> suffixed nm ext k \<in> set used}))"
    by simp
next
  fix used :: "string list" and nm ext :: string and c :: nat
  assume h: "suffixed nm ext c \<in> set used"
  have fin: "finite {k. c \<le> k \<and> suffixed nm ext k \<in> set used}"
    by (rule finite_subset [OF _ finite_suffixed [of nm ext used]]) auto
  have "{k. c + 1 \<le> k \<and> suffixed nm ext k \<in> set used} \<subset> {k. c \<le> k \<and> suffixed nm ext k \<in> set used}"
    using h by (auto simp: psubset_eq dest: equalityD2 [THEN subsetD, of _ _ c])
  then have "card {k. c + 1 \<le> k \<and> suffixed nm ext k \<in> set used} < card {k. c \<le> k \<and> suffixed nm ext k \<in> set used}"
    by (rule psubset_card_mono [OF fin])
  then show "((used, nm, ext, c + 1), (used, nm, ext, c)) \<in> measure (\<lambda>(used, nm, ext, c). card {k. c \<le> k \<and> suffixed nm ext k \<in> set used})"
    by simp
qed

declare collision_loop.simps [simp del]

text \<open>
  \<^verbatim>\<open>assetPath(url)\<close>. The closure variables \<^verbatim>\<open>filePathMap\<close> and \<^verbatim>\<open>usedPaths\<close> are
  the state; \<^verbatim>\<open>new URL(url, baseUrl)\<close> may throw. \<^verbatim>\<open>usedPaths.add\<close> appends, since
  the path it adds is never a member.
\<close>

definition assetPath :: "url_ctor \<Rightarrow> string \<Rightarrow> alloc \<Rightarrow> string \<Rightarrow> (error + string) \<times> alloc" where
  "assetPath URL baseUrl st url =
     (case filePathMap st url of
        Some p \<Rightarrow> (Inr p, st)
      | None \<Rightarrow>
          (case URL url (Some baseUrl) of
             None \<Rightarrow> (Inl TypeError, st)
           | Some u \<Rightarrow>
               let filePath = pathname u;
                   filePath =
                     (if search u \<noteq> [] then
                        let ext = extname filePath in
                        if ext \<noteq> [] then
                          slice0_neg filePath (length ext) @ ''-'' @ abs_hash_36 (search u) @ ext
                        else filePath @ ''-'' @ abs_hash_36 (search u)
                      else filePath);
                   filePath =
                     (if filePath \<in> set (usedPaths st) then
                        let ext = extname filePath;
                            nameWithoutExt = slice0_neg filePath (length ext)
                        in collision_loop (usedPaths st) nameWithoutExt ext 1
                      else filePath)
               in (Inr filePath,
                   st\<lparr>filePathMap := (filePathMap st)(url \<mapsto> filePath),
                      usedPaths := usedPaths st @ [filePath]\<rparr>)))"

text \<open>Any sequence of allocator calls of one run, whatever each call returns.\<close>

fun assetPath_calls :: "url_ctor \<Rightarrow> string \<Rightarrow> string list \<Rightarrow> alloc \<Rightarrow> alloc" where
  "assetPath_calls URL baseUrl [] st = st"
| "assetPath_calls URL baseUrl (url # urls) st =
     assetPath_calls URL baseUrl urls (snd (assetPath URL baseUrl st url))"

subsection \<open>Regular expressions\<close>

text \<open>
  The fragment of JavaScript regular expressions that the program's patterns use, with the
  backtracking order of the language: \<open>rx_run r inp caps\<close> lists, first choice first, every
  way \<open>r\<close> matches a prefix of \<open>inp\<close>, each as the remaining input and the capture
  groups. Quantifiers apply to character classes only, as in every pattern of the source.
\<close>

datatype rx =
    Lit string
  | Cls "char \<Rightarrow> bool"
  | Seq rx rx
  | Alt rx rx
  | Opt rx
  | Star "char \<Rightarrow> bool"
  | Plus "char \<Rightarrow> bool"
  | LazyStar "char \<Rightarrow> bool"
  | LazyPlus "char \<Rightarrow> bool"
  | Grp nat rx
  | Ref nat
  | Eol

type_synonym caps = "(nat \<times> string) list"

fun rx_run :: "rx \<Rightarrow> string \<Rightarrow> caps \<Rightarrow> (string \<times> caps) list" where
  "rx_run (Lit s) inp caps = (if take (length s) inp = s then [(drop (length s) inp, caps)] else [])"
| "rx_run (Cls P) inp caps = (case inp of [] \<Rightarrow> [] | c # cs \<Rightarrow> if P c then [(cs, caps)] else [])"
| "rx_run (Seq a b) inp caps = concat (map (\<lambda>(r, c). rx_run b r c) (rx_run a inp caps))"
| "rx_run (Alt a b) inp caps = rx_run a inp caps @ rx_run b inp caps"
| "rx_run (Opt a) inp caps = rx_run a inp caps @ [(inp, caps)]"
| "rx_run (Star P) inp caps =
     map (\<lambda>k. (drop k inp, caps)) (rev [0 ..< Suc (length (takeWhile P inp))])"
| "rx_run (Plus P) inp caps =
     map (\<lambda>k. (drop k inp, caps)) (rev [1 ..< Suc (length (takeWhile P inp))])"
| "rx_run (LazyStar P) inp caps =
     map (\<lambda>k. (drop k inp, caps)) [0 ..< Suc (length (takeWhile P inp))]"
| "rx_run (LazyPlus P) inp caps =
     map (\<lambda>k. (drop k inp, caps)) [1 ..< Suc (length (takeWhile P inp))]"
| "rx_run (Grp n a) inp caps =
     map (\<lambda>(r, c). (r, (n, take (length inp - length r) inp) # c)) (rx_run a inp caps)"
| "rx_run (Ref n) inp caps =
     (case map_of caps n of
        None \<Rightarrow> [(inp, caps)]
      | Some s \<Rightarrow> if take (length s) inp = s then [(drop (length s) inp, caps)] else [])"
| "rx_run Eol inp caps = (if inp = [] then [(inp, caps)] else [])"

fun Seqs :: "rx list \<Rightarrow> rx" where
  "Seqs [] = Lit []"
| "Seqs [r] = r"
| "Seqs (r # rs) = Seq r (Seqs rs)"

text \<open>A capture group of a match; a group that did not take part is \<^verbatim>\<open>undefined\<close>.\<close>

definition grp :: "caps \<Rightarrow> nat \<Rightarrow> string option" where
  "grp c n = map_of c n"

definition grp_str :: "caps \<Rightarrow> nat \<Rightarrow> string" where
  "grp_str c n = (case map_of c n of None \<Rightarrow> [] | Some s \<Rightarrow> s)"

text \<open>
  \<^verbatim>\<open>str.match(re)\<close> without the \<^verbatim>\<open>g\<close> flag: the leftmost match, as the text before it, the
  matched text, the groups and the text after it.
\<close>

fun rx_exec :: "rx \<Rightarrow> string \<Rightarrow> string \<Rightarrow> (string \<times> string \<times> caps \<times> string) option" where
  "rx_exec r pre [] =
     (case rx_run r [] [] of [] \<Rightarrow> None | (rest, c) # _ \<Rightarrow> Some (pre, [], c, []))"
| "rx_exec r pre (x # xs) =
     (case rx_run r (x # xs) [] of
        [] \<Rightarrow> rx_exec r (pre @ [x]) xs
      | (rest, c) # _ \<Rightarrow>
          Some (pre, take (length (x # xs) - length rest) (x # xs), c, rest))"

definition rx_test :: "rx \<Rightarrow> string \<Rightarrow> bool" where
  "rx_test r s = (rx_exec r [] s \<noteq> None)"

text \<open>
  \<^verbatim>\<open>str.matchAll(re)\<close> and \<^verbatim>\<open>str.replace(re, fn)\<close> with the \<^verbatim>\<open>g\<close> flag: matches are taken
  left to right without overlap; \<open>skip\<close> counts the characters of the last match that are
  still to pass. After an empty match the scan moves on by one character.
\<close>

fun matchAll_from :: "rx \<Rightarrow> nat \<Rightarrow> string \<Rightarrow> (string \<times> caps) list" where
  "matchAll_from r skip [] =
     (if skip = 0 then (case rx_run r [] [] of [] \<Rightarrow> [] | (rest, c) # _ \<Rightarrow> [([], c)]) else [])"
| "matchAll_from r skip (x # xs) =
     (if skip > 0 then matchAll_from r (skip - 1) xs
      else case rx_run r (x # xs) [] of
             [] \<Rightarrow> matchAll_from r 0 xs
           | (rest, c) # _ \<Rightarrow>
               let n = length (x # xs) - length rest
               in (take n (x # xs), c) # matchAll_from r (n - 1) xs)"

definition matchAll :: "rx \<Rightarrow> string \<Rightarrow> (string \<times> caps) list" where
  "matchAll r s = matchAll_from r 0 s"

fun replace_from :: "rx \<Rightarrow> (string \<Rightarrow> caps \<Rightarrow> string) \<Rightarrow> nat \<Rightarrow> string \<Rightarrow> string" where
  "replace_from r f skip [] =
     (if skip = 0 then (case rx_run r [] [] of [] \<Rightarrow> [] | (rest, c) # _ \<Rightarrow> f [] c) else [])"
| "replace_from r f skip (x # xs) =
     (if skip > 0 then replace_from r f (skip - 1) xs
      else case rx_run r (x # xs) [] of
             [] \<Rightarrow> x # replace_from r f 0 xs
           | (rest, c) # _ \<Rightarrow>
               let n = length (x # xs) - length rest
               in if n = 0 then f [] c @ x # replace_from r f 0 xs
                  else f (take n (x # xs)) c @ replace_from r f (n - 1) xs)"

definition replace_all :: "rx \<Rightarrow> (string \<Rightarrow> caps \<Rightarrow> string) \<Rightarrow> string \<Rightarrow> string" where
  "replace_all r f s = replace_from r f 0 s"

text \<open>
  \<^verbatim>\<open>str.replace(re, text)\<close> without the \<^verbatim>\<open>g\<close> flag: the leftmost match only. The
  replacement text is expanded as the language prescribes: \<^verbatim>\<open>$$\<close> is a dollar sign,
  \<^verbatim>\<open>$&\<close> the match, \<^verbatim>\<open>$`\<close> and \<^verbatim>\<open>$'\<close> the text before and after it, and \<^verbatim>\<open>$n\<close> or
  \<^verbatim>\<open>$nn\<close> a group when the pattern has that many groups (two digits are tried first);
  every other dollar sign stands for itself. No pattern of the program names a group.
\<close>

fun rx_groups :: "rx \<Rightarrow> nat" where
  "rx_groups (Grp n a) = max n (rx_groups a)"
| "rx_groups (Seq a b) = max (rx_groups a) (rx_groups b)"
| "rx_groups (Alt a b) = max (rx_groups a) (rx_groups b)"
| "rx_groups (Opt a) = rx_groups a"
| "rx_groups _ = 0"

definition is_digit :: "char \<Rightarrow> bool" where
  "is_digit c = (c \<in> set ''0123456789'')"

definition digit_value :: "char \<Rightarrow> nat" where
  "digit_value c = of_char c - 48"

fun substitution :: "string \<Rightarrow> string \<Rightarrow> string \<Rightarrow> caps \<Rightarrow> nat \<Rightarrow> string \<Rightarrow> string" where
  "substitution pre m post c n [] = []"
| "substitution pre m post c n [x] = [x]"
| "substitution pre m post c n (x # y # r) =
     (if x \<noteq> CHR ''$'' then x # substitution pre m post c n (y # r)
      else if y = CHR ''$'' then CHR ''$'' # substitution pre m post c n r
      else if y = CHR ''&'' then m @ substitution pre m post c n r
      else if y = CHR 0x60 then pre @ substitution pre m post c n r
      else if y = CHR 0x27 then post @ substitution pre m post c n r
      else if is_digit y then
        (case r of
           z # r' \<Rightarrow>
             if is_digit z \<and> 1 \<le> 10 * digit_value y + digit_value z
                \<and> 10 * digit_value y + digit_value z \<le> n
             then grp_str c (10 * digit_value y + digit_value z) @ substitution pre m post c n r'
             else if 1 \<le> digit_value y \<and> digit_value y \<le> n
             then grp_str c (digit_value y) @ substitution pre m post c n r
             else CHR ''$'' # substitution pre m post c n (y # r)
         | [] \<Rightarrow>
             if 1 \<le> digit_value y \<and> digit_value y \<le> n then grp_str c (digit_value y)
             else [CHR ''$'', y])
      else CHR ''$'' # substitution pre m post c n (y # r))"

definition replace_first :: "rx \<Rightarrow> string \<Rightarrow> string \<Rightarrow> string" where
  "replace_first r new s =
     (case rx_exec r [] s of
        None \<Rightarrow> s
      | Some (pre, m, c, rest) \<Rightarrow> pre @ substitution pre m rest c (rx_groups r) new @ rest)"

subsubsection \<open>Character classes\<close>

definition is_alpha :: "char \<Rightarrow> bool" where
  "is_alpha c = (c \<in> set ''abcdefghijklmnopqrstuvwxyzABCDEFGHIJKLMNOPQRSTUVWXYZ'')"

definition is_scheme_char :: "char \<Rightarrow> bool" where
  "is_scheme_char c = (is_alpha c \<or> c \<in> set ''0123456789+.-'')"

definition is_space :: "char \<Rightarrow> bool" where
  "is_space c = (c \<in> set [CHR 0x09, CHR 0x0A, CHR 0x0B, CHR 0x0C, CHR 0x0D, CHR 0x20, CHR 0xA0])"

definition is_quote3 :: "char \<Rightarrow> bool" where
  "is_quote3 c = (c \<in> set [CHR 0x27, CHR 0x22, CHR 0x60])"

definition is_quote2 :: "char \<Rightarrow> bool" where
  "is_quote2 c = (c \<in> set [CHR 0x27, CHR 0x22])"

definition not_newline :: "char \<Rightarrow> bool" where
  "not_newline c = (c \<notin> set [CHR 0x0A, CHR 0x0D])"

subsection \<open>\<^verbatim>\<open>getRelativePath\<close> and \<^verbatim>\<open>rewriteUrls\<close>\<close>

text \<open>
  \<^verbatim>\<open>path.relative(path.dirname(from), to).split(path.sep).join("/")\<close>, with the posix
  separator.
\<close>

definition getRelativePath :: "string \<Rightarrow> string \<Rightarrow> string \<Rightarrow> string" where
  "getRelativePath cwd fromFilePath toFilePath =
     (let fromDir = dirname fromFilePath;
          relative = relative cwd fromDir toFilePath
      in join_with ''/'' (split_on CHR ''/'' relative))"

text \<open>
  The patterns of \<^verbatim>\<open>rewriteUrls\<close>. \<open>rx_scheme_url tail\<close> is
  \<^verbatim>\<open>[a-zA-Z][a-zA-Z0-9+.-]*:\/\/\<close> followed by the pattern's own tail.
\<close>

definition rx_scheme_url :: "rx \<Rightarrow> rx" where
  "rx_scheme_url tail = Seqs [Cls is_alpha, Star is_scheme_char, Lit ''://'', tail]"

definition rx_js_string :: rx where
  "rx_js_string =
     Seqs [Grp 1 (Cls is_quote3),
           Grp 2 (rx_scheme_url (Plus (\<lambda>c. \<not> is_quote3 c \<and> \<not> is_space c))),
           Ref 1]"

definition rx_js_fetch :: rx where
  "rx_js_fetch = Seqs [Lit ''fetch'', Star is_space, Lit ''('', Star is_space, rx_js_string]"

definition rx_js_new_URL :: rx where
  "rx_js_new_URL =
     Seqs [Lit ''new'', Plus is_space, Lit ''URL'', Star is_space, Lit ''('', Star is_space,
           rx_js_string]"

definition rx_css_url :: rx where
  "rx_css_url =
     Seqs [Lit ''url'', Star is_space, Lit ''('', Star is_space,
           Grp 1 (Opt (Cls is_quote2)),
           Grp 2 (rx_scheme_url (LazyPlus (\<lambda>c. c \<noteq> CHR '')''))),
           Ref 1, Star is_space, Lit '')'']"

definition rx_css_import :: rx where
  "rx_css_import =
     Seqs [Lit ''@import'', Plus is_space,
           Opt (Seqs [Lit ''url'', Star is_space, Lit ''('', Star is_space]),
           Grp 1 (Cls is_quote2),
           Grp 2 (rx_scheme_url (LazyPlus (\<lambda>c. \<not> is_quote2 c))),
           Ref 1,
           Opt (Seqs [Star is_space, Lit '')''])]"

definition rx_json_url :: rx where
  "rx_json_url =
     Seqs [Lit '':'', Star is_space, Lit [CHR 0x22],
           Grp 1 (rx_scheme_url (LazyPlus (\<lambda>c. c \<noteq> CHR 0x22))),
           Lit [CHR 0x22]]"

text \<open>\<^verbatim>\<open>String.prototype.trim\<close>.\<close>

definition trim :: "string \<Rightarrow> string" where
  "trim s = rev (dropWhile is_space (rev (dropWhile is_space s)))"

text \<open>
  The body shared by the replacer callbacks: \<^verbatim>\<open>new URL(url)\<close> (a throw is caught and the
  match kept), the origin test, the lookup in \<^verbatim>\<open>filePathMap\<close>, and the relative path from
  the file being rewritten. \<open>None\<close> stands for \<^verbatim>\<open>return match\<close>.
\<close>

definition relative_target ::
  "url_ctor \<Rightarrow> string \<Rightarrow> parsed_url \<Rightarrow> alloc \<Rightarrow> string \<Rightarrow> string \<Rightarrow> string option" where
  "relative_target URL cwd baseUrlObj st filePath url =
     (case URL url None of
        None \<Rightarrow> None
      | Some urlObj \<Rightarrow>
          if origin urlObj = origin baseUrlObj then
            (case filePathMap st url of
               Some targetPath \<Rightarrow> Some (getRelativePath cwd filePath targetPath)
             | None \<Rightarrow> None)
          else None)"

definition rewriteUrls ::
  "url_ctor \<Rightarrow> string \<Rightarrow> string \<Rightarrow> alloc \<Rightarrow> string \<Rightarrow> string \<Rightarrow> string \<Rightarrow> (error + string) \<times> alloc" where
  "rewriteUrls URL cwd baseUrl st content fileUrl fileType =
     (case URL baseUrl None of
        None \<Rightarrow> (Inl TypeError, st)
      | Some baseUrlObj \<Rightarrow>
     (case URL fileUrl (Some baseUrl) of
        None \<Rightarrow> (Inl TypeError, st)
      | Some fileUrlObj \<Rightarrow>
     (case assetPath URL baseUrl st fileUrl of
        (Inl e, st') \<Rightarrow> (Inl e, st')
      | (Inr filePath, st') \<Rightarrow>
          if origin fileUrlObj \<noteq> origin baseUrlObj then (Inr content, st')
          else
            let target = relative_target URL cwd baseUrlObj st' filePath;
                rewritten = content;
                rewritten =
                  (if fileType = ''js'' \<or> fileType = ''mjs'' then
                     let rewritten =
                           replace_all rx_js_string
                             (\<lambda>m c. case target (grp_str c 2) of
                                      Some relativePath \<Rightarrow> grp_str c 1 @ relativePath @ grp_str c 1
                                    | None \<Rightarrow> m) rewritten;
                         rewritten =
                           replace_all rx_js_fetch
                             (\<lambda>m c. case target (grp_str c 2) of
                                      Some relativePath \<Rightarrow>
                                        ''fetch('' @ grp_str c 1 @ relativePath @ grp_str c 1
                                    | None \<Rightarrow> m) rewritten
                     in replace_all rx_js_new_URL
                          (\<lambda>m c. case target (grp_str c 2) of
                                   Some relativePath \<Rightarrow>
                                     ''new URL('' @ grp_str c 1 @ relativePath @ grp_str c 1
                                 | None \<Rightarrow> m) rewritten
                   else rewritten);
                rewritten =
                  (if fileType = ''css'' then
                     let rewritten =
                           replace_all rx_css_url
                             (\<lambda>m c. case target (trim (grp_str c 2)) of
                                      Some relativePath \<Rightarrow>
                                        ''url('' @ grp_str c 1 @ relativePath @ grp_str c 1 @ '')''
                                    | None \<Rightarrow> m) rewritten
                     in replace_all rx_css_import
                          (\<lambda>m c. case target (grp_str c 2) of
                                   Some relativePath \<Rightarrow>
                                     ''@import url('' @ grp_str c 1 @ relativePath @ grp_str c 1 @ '')''
                                 | None \<Rightarrow> m) rewritten
                   else rewritten);
                rewritten =
                  (if fileType = ''json'' then
                     replace_all rx_json_url
                       (\<lambda>m c. case target (grp_str c 1) of
                                Some relativePath \<Rightarrow> '': '' @ [CHR 0x22] @ relativePath @ [CHR 0x22]
                              | None \<Rightarrow> m) rewritten
                   else rewritten)
            in (Inr rewritten, st'))))"

subsection \<open>\<^verbatim>\<open>PATTERNS\<close> and \<^verbatim>\<open>extractAssets\<close>\<close>

text \<open>\<^verbatim>\<open>[`'"]([^`"']+?)[`"']\<close>, the quoted reference most script patterns end with.\<close>

definition rx_quoted_ref :: rx where
  "rx_quoted_ref = Seqs [Cls is_quote3, Grp 1 (LazyPlus (\<lambda>c. \<not> is_quote3 c)), Cls is_quote3]"

definition rx_call :: "string \<Rightarrow> rx" where
  "rx_call name =
     Seqs [Lit name, Star is_space, Lit ''('', Star is_space, rx_quoted_ref, Star is_space, Lit '')'']"

definition JS_IMPORTS :: "rx list" where
  "JS_IMPORTS =
     [rx_call ''import'',
      Seqs [Lit ''import'', Plus is_space, LazyStar not_newline, Plus is_space, Lit ''from'',
            Plus is_space, rx_quoted_ref],
      rx_call ''require'',
      Seqs [Lit ''new'', Plus is_space, Lit ''URL'', Star is_space, Lit ''('', Star is_space,
            rx_quoted_ref],
      Seqs [Lit ''__webpack_require__.p'', Star is_space, Lit ''+'', Star is_space, rx_quoted_ref],
      Seqs [Lit ''__webpack_public_path__'', Star is_space, Lit ''+'', Star is_space, rx_quoted_ref],
      Seqs [Lit ''__framer__url'', Star is_space, rx_quoted_ref],
      rx_call ''fetch'',
      rx_call ''loadScript'',
      Seqs [Lit ''.lazy'', Star is_space, Lit ''('', Star is_space, Lit ''()'', Star is_space,
            Lit ''=>'', Star is_space, rx_call ''import''],
      Seqs [Lit ''chunk:'', Star is_space, rx_quoted_ref]]"

definition rx_css_any_url :: rx where
  "rx_css_any_url =
     Seqs [Lit ''url'', Star is_space, Lit ''('', Star is_space,
           Grp 1 (Opt (Cls is_quote2)), Grp 2 (LazyPlus (\<lambda>c. c \<noteq> CHR '')'')), Ref 1,
           Star is_space, Lit '')'']"

definition CSS_URLS :: "rx list" where
  "CSS_URLS =
     [rx_css_any_url,
      Seqs [Lit ''@import'', Plus is_space,
            Opt (Seqs [Lit ''url'', Star is_space, Lit ''('', Star is_space]),
            Cls is_quote2, Grp 1 (LazyPlus (\<lambda>c. \<not> is_quote2 c)), Cls is_quote2,
            Opt (Seqs [Star is_space, Lit '')''])],
      Seqs [Lit ''src:'', Star is_space, rx_css_any_url]]"

definition rx_sm_prefix :: "string \<Rightarrow> rx" where
  "rx_sm_prefix opening =
     Seqs [Lit opening, Cls (\<lambda>c. c \<in> set ''#@''), Star is_space, Lit ''sourceMappingURL='']"

definition rx_sm_line :: rx where
  "rx_sm_line = Seq (rx_sm_prefix ''//'') (Grp 1 (Plus (\<lambda>c. \<not> is_space c)))"

definition rx_sm_block :: rx where
  "rx_sm_block =
     Seqs [rx_sm_prefix ''/*'', Grp 1 (Plus (\<lambda>c. \<not> is_space c \<and> c \<noteq> CHR ''*'')),
           Star is_space, Lit ''*/'']"

definition SOURCE_MAP :: "rx list" where
  "SOURCE_MAP = [rx_sm_line, rx_sm_block]"

text \<open>
  The patterns of the two \<^verbatim>\<open>replace\<close> calls of step 5,
  \<^verbatim>\<open>/\/\/[#@]\s*sourceMappingURL=[^\s]+/\<close> and
  \<^verbatim>\<open>/\/\*[#@]\s*sourceMappingURL=[^\s*]+\s*\*\//\<close>: the same texts without a group.
\<close>

definition rx_directive_line :: rx where
  "rx_directive_line = Seq (rx_sm_prefix ''//'') (Plus (\<lambda>c. \<not> is_space c))"

definition rx_directive_block :: rx where
  "rx_directive_block =
     Seqs [rx_sm_prefix ''/*'', Plus (\<lambda>c. \<not> is_space c \<and> c \<noteq> CHR ''*''),
           Star is_space, Lit ''*/'']"

definition JSON_ASSETS :: "rx list" where
  "JSON_ASSETS =
     [Seqs [Lit [CHR 0x22],
            Alt (Lit ''src'') (Alt (Lit ''href'') (Alt (Lit ''url'') (Alt (Lit ''image'')
              (Alt (Lit ''icon'') (Alt (Lit ''logo'') (Alt (Lit ''poster'') (Lit ''thumbnail''))))))),
            Lit [CHR 0x22], Star is_space, Lit '':'', Star is_space, Lit [CHR 0x22],
            Grp 1 (LazyPlus (\<lambda>c. c \<noteq> CHR 0x22)), Lit [CHR 0x22]]]"

text \<open>\<^verbatim>\<open>/^[./]|\.js|\.mjs|\.css|\.json|\.wasm|\.map/.test(url)\<close>.\<close>

definition looks_like_path :: "string \<Rightarrow> bool" where
  "looks_like_path url =
     ((case url of [] \<Rightarrow> False | c # _ \<Rightarrow> c \<in> set ''./'') \<or>
      rx_test (Alt (Lit ''.js'') (Alt (Lit ''.mjs'') (Alt (Lit ''.css'') (Alt (Lit ''.json'')
                 (Alt (Lit ''.wasm'') (Lit ''.map'')))))) url)"

text \<open>\<^verbatim>\<open>Set.prototype.add\<close> on a set kept in insertion order.\<close>

definition set_add :: "string list \<Rightarrow> string \<Rightarrow> string list" where
  "set_add xs x = (if x \<in> set xs then xs else xs @ [x])"

text \<open>
  \<^verbatim>\<open>extractAssets(code, type, baseUrl)\<close>; \<^verbatim>\<open>enableSourceMaps\<close> is the closure variable.
  The write-only map \<^verbatim>\<open>sourceMapUrls\<close> is left out: nothing reads it.
\<close>

definition extract_js_ref :: "url_ctor \<Rightarrow> string \<Rightarrow> string list \<Rightarrow> string \<Rightarrow> string list" where
  "extract_js_ref URL baseUrl found url =
     (if url \<noteq> [] \<and> (startsWith url ''http'' \<or> startsWith url ''//'') then
        set_add found (if startsWith url ''//'' then ''https:'' @ url else url)
      else if url \<noteq> [] \<and> \<not> startsWith url ''data:'' \<and> \<not> startsWith url ''#'' then
        (if looks_like_path url then
           (case URL url (Some baseUrl) of None \<Rightarrow> found | Some resolved \<Rightarrow> set_add found (href resolved))
         else found)
      else found)"

definition extract_map_ref :: "url_ctor \<Rightarrow> string \<Rightarrow> string \<Rightarrow> string list \<Rightarrow> rx \<Rightarrow> string list" where
  "extract_map_ref URL baseUrl code found pattern =
     (case rx_exec pattern [] code of
        None \<Rightarrow> found
      | Some (pre, m, c, rest) \<Rightarrow>
          let mapUrl = grp_str c 1 in
          if mapUrl = [] then found
          else if startsWith mapUrl ''http'' then set_add found mapUrl
          else (case URL mapUrl (Some baseUrl) of
                  None \<Rightarrow> found
                | Some resolved \<Rightarrow> set_add found (href resolved)))"

definition extract_css_ref :: "url_ctor \<Rightarrow> string \<Rightarrow> string list \<Rightarrow> caps \<Rightarrow> string list" where
  "extract_css_ref URL baseUrl found c =
     (let url = (case grp c 2 of Some u \<Rightarrow> if u \<noteq> [] then u else grp_str c 1 | None \<Rightarrow> grp_str c 1) in
      if url \<noteq> [] \<and> \<not> startsWith url ''data:'' \<and> \<not> startsWith url ''#'' then
        (if startsWith url ''http'' \<or> startsWith url ''//'' then
           set_add found (if startsWith url ''//'' then ''https:'' @ url else url)
         else (case URL url (Some baseUrl) of
                 None \<Rightarrow> found
               | Some resolved \<Rightarrow> set_add found (href resolved)))
      else found)"

definition extractAssets :: "url_ctor \<Rightarrow> bool \<Rightarrow> string \<Rightarrow> string \<Rightarrow> string \<Rightarrow> string list" where
  "extractAssets URL enableSourceMaps code type baseUrl =
     (let found = [];
          found =
            (if type = ''js'' \<or> type = ''mjs'' then
               let found =
                     foldl (\<lambda>found pattern.
                              foldl (\<lambda>found (m, c). extract_js_ref URL baseUrl found (grp_str c 1))
                                found (matchAll pattern code))
                       found JS_IMPORTS
               in if enableSourceMaps then foldl (extract_map_ref URL baseUrl code) found SOURCE_MAP
                  else found
             else found);
          found =
            (if type = ''css'' then
               foldl (\<lambda>found pattern.
                        foldl (\<lambda>found (m, c). extract_css_ref URL baseUrl found c)
                          found (matchAll pattern code))
                 found CSS_URLS
             else found);
          found =
            (if type = ''json'' then
               foldl (\<lambda>found pattern.
                        foldl (\<lambda>found (m, c).
                                 let url = grp_str c 1 in
                                 if url \<noteq> [] \<and> startsWith url ''http'' then set_add found url
                                 else found)
                          found (matchAll pattern code))
                 found JSON_ASSETS
             else found)
      in found)"

subsection \<open>The crawl: \<^verbatim>\<open>broddy\<close>\<close>

text \<open>
  The world outside the program: the URL constructor, \<^verbatim>\<open>node-fetch\<close> (\<open>None\<close> is a rejected
  request, a response carries \<^verbatim>\<open>ok\<close> and its body), cheerio's \<^verbatim>\<open>load\<close> and \<^verbatim>\<open>$.html()\<close> on a
  document seen as its elements in document order, \<^verbatim>\<open>JSON.parse\<close> (whether it returns),
  and the working directory. Buffers and strings hold the same bytes. Beside the
  program's own variables the state keeps what it prints (\<open>console\<close>) and every URL it
  hands to \<^verbatim>\<open>download\<close>, in order (\<open>requests\<close>).

  The file system is a tree of regular files (\<open>files\<close>, from absolute path to content,
  in the order of creation) and directories (\<open>dirs\<close>, absolute paths). A path names the
  entry it resolves to against the working directory. An operation fails as the calls of
  \<^verbatim>\<open>fs\<close> do on such a tree: a directory cannot be made where a file stands, a file
  cannot be written over a directory or under a name that ends in a separator.
  Permissions, links and device errors are outside the model.
\<close>

record response =
  ok :: bool
  body :: string

record element =
  tag :: string
  attribs :: "(string \<times> string) list"
  inner :: string

record env =
  env_URL :: url_ctor
  env_fetch :: "string \<Rightarrow> response option"
  env_load :: "string \<Rightarrow> element list"
  env_html :: "element list \<Rightarrow> string"
  env_JSON_parse :: "string \<Rightarrow> bool"
  env_cwd :: string

datatype event =
    Page string | Saved string | Found string | FailedScan string | Cached string
  | FailedRewrite string | FoundSourceMap string | FailedSourceMap string
  | Downloaded string | FailedDownload string | Stats nat nat

record run =
  files :: "(string \<times> string) list"
  dirs :: "string list"
  assetUrls :: "(string \<times> string) list"
  processedAssets :: "string list"
  paths :: alloc
  downloadedAssets :: "(string \<times> string) list"
  console :: "event list"
  requests :: "string list"

definition run_init :: "(string \<times> string) list \<Rightarrow> string list \<Rightarrow> run" where
  "run_init fs ds = \<lparr>files = fs, dirs = ds, assetUrls = [], processedAssets = [],
     paths = alloc_init, downloadedAssets = [], console = [], requests = []\<rparr>"

definition has :: "(string \<times> string) list \<Rightarrow> string \<Rightarrow> bool" where
  "has m k = (map_of m k \<noteq> None)"

definition trailing_slash :: "string \<Rightarrow> bool" where
  "trailing_slash p = (p \<noteq> [] \<and> is_slash (last p))"

text \<open>
  \<^verbatim>\<open>fs.mkdir(d, {recursive: true})\<close>: the directory and every directory above it, the
  root first. It throws when one of them is a file, and makes nothing then (what lies
  above a file exists already).
\<close>

definition dir_chain :: "string \<Rightarrow> string \<Rightarrow> string list" where
  "dir_chain cwd d =
     (let segs = resolve_segs cwd [d]
      in map (\<lambda>k. ''/'' @ join_with ''/'' (take k segs)) [0 ..< Suc (length segs)])"

definition mkdir_p :: "string \<Rightarrow> run \<Rightarrow> string \<Rightarrow> run option" where
  "mkdir_p cwd st d =
     (let chain = dir_chain cwd d
      in if d = [] \<or> list_ex (has (files st)) chain then None
         else Some (st\<lparr>dirs := dirs st @ filter (\<lambda>p. p \<notin> set (dirs st)) chain\<rparr>))"

text \<open>\<^verbatim>\<open>fs.writeFile\<close>, \<^verbatim>\<open>fs.readFile\<close> and \<^verbatim>\<open>fs.stat\<close> (whether it returns).\<close>

definition write_file :: "string \<Rightarrow> run \<Rightarrow> string \<Rightarrow> string \<Rightarrow> run option" where
  "write_file cwd st p data =
     (if trailing_slash p \<or> resolve cwd [p] \<in> set (dirs st)
         \<or> resolve cwd [dirname p] \<notin> set (dirs st) then None
      else Some (st\<lparr>files := AList.update (resolve cwd [p]) data (files st)\<rparr>))"

definition read_file :: "string \<Rightarrow> run \<Rightarrow> string \<Rightarrow> string option" where
  "read_file cwd st p = (if trailing_slash p then None else map_of (files st) (resolve cwd [p]))"

definition stat_ok :: "string \<Rightarrow> run \<Rightarrow> string \<Rightarrow> bool" where
  "stat_ok cwd st p =
     (resolve cwd [p] \<in> set (dirs st) \<or> (\<not> trailing_slash p \<and> has (files st) (resolve cwd [p])))"

text \<open>
  \<^verbatim>\<open>fs.readdir(d, {recursive: true})\<close>: the entries below \<open>d\<close>, files and directories, by
  their names relative to \<open>d\<close>. Node leaves the order of the listing to the operating
  system; here the files come first, in the order of creation.
\<close>

definition readdir_recursive :: "string \<Rightarrow> run \<Rightarrow> string \<Rightarrow> string list" where
  "readdir_recursive cwd st d =
     (let base = resolve_segs cwd [d]
      in map (\<lambda>p. join_with ''/'' (drop (length base) (resolve_segs cwd [p])))
           (filter (\<lambda>p. length base < length (resolve_segs cwd [p]) \<and>
                         take (length base) (resolve_segs cwd [p]) = base)
              (map fst (files st) @ dirs st)))"

text \<open>
  The closure \<^verbatim>\<open>save\<close>: \<^verbatim>\<open>path.join\<close>, \<^verbatim>\<open>fs.mkdir\<close> of the directory, \<^verbatim>\<open>fs.writeFile\<close>.
  \<open>False\<close> is a throw, with the state as the calls before it left it.
\<close>

definition save :: "string \<Rightarrow> string \<Rightarrow> run \<Rightarrow> string \<Rightarrow> string \<Rightarrow> bool \<times> run" where
  "save cwd outDir st p data =
     (let filePath = path_join [outDir, p]
      in case mkdir_p cwd st (dirname filePath) of
           None \<Rightarrow> (False, st)
         | Some st1 \<Rightarrow>
             (case write_file cwd st1 filePath data of
                None \<Rightarrow> (False, st1)
              | Some st2 \<Rightarrow> (True, st2)))"

definition download :: "env \<Rightarrow> string \<Rightarrow> error + string" where
  "download e url =
     (case env_fetch e url of
        None \<Rightarrow> Inl FetchError
      | Some res \<Rightarrow> if ok res then Inr (body res) else Inl HttpError)"

definition attr :: "element \<Rightarrow> string \<Rightarrow> string option" where
  "attr el name = map_of (attribs el) name"

definition set_attr :: "element \<Rightarrow> string \<Rightarrow> string \<Rightarrow> element" where
  "set_attr el name v = el\<lparr>attribs := AList.update name v (attribs el)\<rparr>"

text \<open>
  Step 1, one attribute of one element: \<^verbatim>\<open>$("[href]").each(...)\<close> and its two siblings
  for \<^verbatim>\<open>src\<close> and \<^verbatim>\<open>data\<close>.
\<close>

definition rewrite_attr ::
  "url_ctor \<Rightarrow> string \<Rightarrow> parsed_url \<Rightarrow> alloc \<Rightarrow> string \<Rightarrow> string \<Rightarrow> element \<Rightarrow> element" where
  "rewrite_attr URL cwd baseUrlObj st file name el =
     (case attr el name of
        None \<Rightarrow> el
      | Some v \<Rightarrow>
          if v \<noteq> [] \<and> startsWith v ''http'' then
            (case relative_target URL cwd baseUrlObj st file v of
               Some relativePath \<Rightarrow> set_attr el name relativePath
             | None \<Rightarrow> el)
          else el)"

definition page_file :: "string \<Rightarrow> string" where
  "page_file page = (if page = ''/'' then ''index.html'' else drop 1 page @ ''.html'')"

definition download_page :: "env \<Rightarrow> string \<Rightarrow> string \<Rightarrow> run \<Rightarrow> string \<Rightarrow> error + run" where
  "download_page e baseUrl outDir st page =
     (case env_URL e page (Some baseUrl) of
        None \<Rightarrow> Inl TypeError
      | Some u \<Rightarrow>
     (case env_fetch e (href u) of
        None \<Rightarrow> Inl FetchError
      | Some res \<Rightarrow>
     (case env_URL e baseUrl None of
        None \<Rightarrow> Inl TypeError
      | Some baseUrlObj \<Rightarrow>
          let file = page_file page;
              dom = env_load e (body res);
              dom = map (rewrite_attr (env_URL e) (env_cwd e) baseUrlObj (paths st) file ''href'') dom;
              dom = map (rewrite_attr (env_URL e) (env_cwd e) baseUrlObj (paths st) file ''src'') dom;
              dom = map (rewrite_attr (env_URL e) (env_cwd e) baseUrlObj (paths st) file ''data'') dom
          in case save (env_cwd e) outDir (st\<lparr>console := console st @ [Page (href u)]\<rparr>)
                    file (env_html e dom) of
               (False, st) \<Rightarrow> Inl IOError
             | (True, st) \<Rightarrow> Inr (st\<lparr>console := console st @ [Saved file]\<rparr>))))"

fun download_pages :: "env \<Rightarrow> string \<Rightarrow> string \<Rightarrow> run \<Rightarrow> string list \<Rightarrow> error + run" where
  "download_pages e baseUrl outDir st [] = Inr st"
| "download_pages e baseUrl outDir st (page # pages) =
     (case download_page e baseUrl outDir st page of
        Inl err \<Rightarrow> Inl err
      | Inr st' \<Rightarrow> download_pages e baseUrl outDir st' pages)"

text \<open>Step 2: the scan of the saved pages.\<close>

definition toLowerCase :: "string \<Rightarrow> string" where
  "toLowerCase s =
     map (\<lambda>c. if c \<in> set ''ABCDEFGHIJKLMNOPQRSTUVWXYZ'' then char_of (of_char c + (32::nat)) else c) s"

definition type_of_ext :: "string \<Rightarrow> string" where
  "type_of_ext ext =
     (if ext = ''.js'' \<or> ext = ''.mjs'' then ''js''
      else if ext = ''.css'' then ''css''
      else if ext = ''.json'' then ''json''
      else ''other'')"

text \<open>\<^verbatim>\<open>path.extname(new URL(url).pathname).toLowerCase()\<close> and the type it selects.\<close>

definition type_of_url :: "url_ctor \<Rightarrow> string \<Rightarrow> string option" where
  "type_of_url URL url =
     (case URL url None of
        None \<Rightarrow> None
      | Some u \<Rightarrow> Some (type_of_ext (toLowerCase (extname (pathname u)))))"

definition asset_selector :: "element \<Rightarrow> bool" where
  "asset_selector el =
     ((tag el = ''link'' \<and> attr el ''href'' \<noteq> None) \<or>
      (tag el \<in> set [''script'', ''img'', ''source'', ''video'', ''audio'', ''embed'', ''iframe'']
         \<and> attr el ''src'' \<noteq> None) \<or>
      (tag el = ''object'' \<and> attr el ''data'' \<noteq> None))"

definition scan_tag_attr ::
  "url_ctor \<Rightarrow> string \<Rightarrow> element \<Rightarrow> (string \<times> string) list \<Rightarrow> string \<Rightarrow> (string \<times> string) list" where
  "scan_tag_attr URL baseUrl el au name =
     (case attr el name of
        None \<Rightarrow> au
      | Some val \<Rightarrow>
          if val \<noteq> [] \<and> \<not> startsWith val ''data:'' \<and> \<not> startsWith val ''#'' then
            (case (if startsWith val ''http'' then Some val
                   else if startsWith val ''//'' then Some (''https:'' @ val)
                   else map_option href (URL val (Some baseUrl))) of
               None \<Rightarrow> au
             | Some url \<Rightarrow>
                 (case type_of_url URL url of
                    None \<Rightarrow> au
                  | Some type \<Rightarrow> AList.update url type au))
          else au)"

text \<open>\<^verbatim>\<open>/https?:\/\/[^\s"'<>{}|\\^`\]]+/g\<close> and \<^verbatim>\<open>/[,;]$/\<close>.\<close>

definition rx_http_url :: rx where
  "rx_http_url =
     Seqs [Lit ''http'', Opt (Lit ''s''), Lit ''://'',
           Plus (\<lambda>c. \<not> is_space c \<and>
                     c \<notin> set [CHR 0x22, CHR 0x27, CHR ''<'', CHR ''>'', CHR ''{'', CHR ''}'',
                                CHR ''|'', CHR 0x5C, CHR ''^'', CHR 0x60, CHR '']''])]"

definition rx_trailing_punct :: rx where
  "rx_trailing_punct = Seq (Cls (\<lambda>c. c \<in> set '',;'')) Eol"

definition scan_attr_value ::
  "url_ctor \<Rightarrow> (string \<times> string) list \<Rightarrow> string \<Rightarrow> (string \<times> string) list" where
  "scan_attr_value URL au val =
     foldl (\<lambda>au (url, c).
              let cleanUrl = replace_first rx_trailing_punct [] url in
              case type_of_url URL cleanUrl of
                None \<Rightarrow> au
              | Some type \<Rightarrow> AList.update cleanUrl type au)
       au (matchAll rx_http_url val)"

definition scan_html ::
  "env \<Rightarrow> string \<Rightarrow> bool \<Rightarrow> (string \<times> string) list \<Rightarrow> string \<Rightarrow> (string \<times> string) list" where
  "scan_html e baseUrl enableSourceMaps au html =
     (let dom = env_load e html;
          au = foldl (\<lambda>au el. foldl (scan_tag_attr (env_URL e) baseUrl el) au [''href'', ''src'', ''data''])
                 au (filter asset_selector dom);
          au = foldl (\<lambda>au el.
                        if inner el \<noteq> [] then
                          foldl (\<lambda>au url. AList.update url ''js'' au) au
                            (extractAssets (env_URL e) enableSourceMaps (inner el) ''js'' baseUrl)
                        else au)
                 au (filter (\<lambda>el. tag el = ''script'' \<and> attr el ''src'' = None) dom);
          au = foldl (\<lambda>au el.
                        if inner el \<noteq> [] then
                          foldl (\<lambda>au url. AList.update url ''css'' au) au
                            (extractAssets (env_URL e) enableSourceMaps (inner el) ''css'' baseUrl)
                        else au)
                 au (filter (\<lambda>el. tag el = ''style'') dom)
      in foldl (\<lambda>au el. foldl (scan_attr_value (env_URL e)) au (map snd (attribs el))) au dom)"

text \<open>
  \<^verbatim>\<open>fs.readdir(outDir, {recursive: true})\<close>, filtered to the names that end in
  \<^verbatim>\<open>.html\<close> and joined with \<^verbatim>\<open>outDir\<close> again.
\<close>

definition html_files :: "string \<Rightarrow> run \<Rightarrow> string \<Rightarrow> string list" where
  "html_files cwd st outDir =
     map (\<lambda>n. path_join [outDir, n])
       (filter (\<lambda>n. endsWith n ''.html'') (readdir_recursive cwd st outDir))"

text \<open>The loop over \<^verbatim>\<open>htmlFiles\<close>; \<^verbatim>\<open>fs.readFile\<close> is not guarded, its throw ends the run.\<close>

fun scan_files :: "env \<Rightarrow> string \<Rightarrow> bool \<Rightarrow> run \<Rightarrow> string list \<Rightarrow> error + run" where
  "scan_files e baseUrl enableSourceMaps st [] = Inr st"
| "scan_files e baseUrl enableSourceMaps st (file # rest) =
     (case read_file (env_cwd e) st file of
        None \<Rightarrow> Inl IOError
      | Some html \<Rightarrow>
          scan_files e baseUrl enableSourceMaps
            (st\<lparr>assetUrls := scan_html e baseUrl enableSourceMaps (assetUrls st) html\<rparr>) rest)"

definition scan_pages :: "env \<Rightarrow> string \<Rightarrow> string \<Rightarrow> bool \<Rightarrow> run \<Rightarrow> error + run" where
  "scan_pages e baseUrl outDir enableSourceMaps st =
     scan_files e baseUrl enableSourceMaps st (html_files (env_cwd e) st outDir)"

text \<open>
  Step 3, the worklist. \<open>add_found\<close> is the loop over \<^verbatim>\<open>found\<close>: a throwing
  \<^verbatim>\<open>new URL(foundUrl)\<close> ends it (\<open>False\<close>), and the \<^verbatim>\<open>catch\<close> of the scan logs the failure.
\<close>

fun add_found :: "url_ctor \<Rightarrow> string list \<Rightarrow> run \<Rightarrow> string list \<Rightarrow> bool \<times> run \<times> string list" where
  "add_found URL [] st toProcess = (True, st, toProcess)"
| "add_found URL (foundUrl # found) st toProcess =
     (if \<not> has (assetUrls st) foundUrl \<and> foundUrl \<notin> set (processedAssets st) then
        (case type_of_url URL foundUrl of
           None \<Rightarrow> (False, st, toProcess)
         | Some foundType \<Rightarrow>
             add_found URL found
               (st\<lparr>assetUrls := AList.update foundUrl foundType (assetUrls st),
                   console := console st @ [Found foundUrl]\<rparr>)
               (toProcess @ [foundUrl]))
      else add_found URL found st toProcess)"

definition scan_asset :: "env \<Rightarrow> bool \<Rightarrow> run \<Rightarrow> string list \<Rightarrow> string \<Rightarrow> run \<times> string list" where
  "scan_asset e enableSourceMaps st toProcess url =
     (let st = st\<lparr>processedAssets := processedAssets st @ [url]\<rparr>;
          type = (case map_of (assetUrls st) url of
                    None \<Rightarrow> ''other''
                  | Some t \<Rightarrow> if t = [] then ''other'' else t);
          st = st\<lparr>requests := requests st @ [url]\<rparr>
      in case download e url of
           Inl err \<Rightarrow> (st\<lparr>console := console st @ [FailedScan url]\<rparr>, toProcess)
         | Inr content \<Rightarrow>
             (case add_found (env_URL e)
                     (extractAssets (env_URL e) enableSourceMaps content type url) st toProcess of
                (finished, st', toProcess') \<Rightarrow>
                  if finished then (st', toProcess')
                  else (st'\<lparr>console := console st' @ [FailedScan url]\<rparr>, toProcess')))"

partial_function (option) discover :: "env \<Rightarrow> bool \<Rightarrow> string list \<Rightarrow> run \<Rightarrow> run option" where
  "discover e enableSourceMaps toProcess st =
     (case toProcess of
        [] \<Rightarrow> Some st
      | url # rest \<Rightarrow>
          if url \<in> set (processedAssets st) then discover e enableSourceMaps rest st
          else (case scan_asset e enableSourceMaps st rest url of
                  (st', rest') \<Rightarrow> discover e enableSourceMaps rest' st'))"

text \<open>Step 4: a path for every asset URL but the root and the pages; a throw ends the run.\<close>

definition page_like :: "parsed_url \<Rightarrow> bool" where
  "page_like u = (pathname u = ''/'' \<or> endsWith (pathname u) ''.html'')"

fun precompute_paths :: "url_ctor \<Rightarrow> string \<Rightarrow> alloc \<Rightarrow> string list \<Rightarrow> error + alloc" where
  "precompute_paths URL baseUrl st [] = Inr st"
| "precompute_paths URL baseUrl st (url # urls) =
     (case URL url (Some baseUrl) of
        None \<Rightarrow> Inl TypeError
      | Some u \<Rightarrow>
          if page_like u then precompute_paths URL baseUrl st urls
          else (case assetPath URL baseUrl st url of
                  (Inl err, st') \<Rightarrow> Inl err
                | (Inr filePath, st') \<Rightarrow> precompute_paths URL baseUrl st' urls))"

text \<open>
  Step 5. \<^verbatim>\<open>processedContent\<close> is a \<^verbatim>\<open>Buffer\<close> from its first assignment on, and a
  \<^verbatim>\<open>Buffer\<close> has no method \<^verbatim>\<open>replace\<close>: calling it throws a \<^verbatim>\<open>TypeError\<close>.
\<close>

datatype js_value = Buffer string | Str string

definition toString_utf8 :: "js_value \<Rightarrow> string" where
  "toString_utf8 v = (case v of Buffer b \<Rightarrow> b | Str s \<Rightarrow> s)"

definition replace_method :: "js_value \<Rightarrow> rx \<Rightarrow> string \<Rightarrow> error + js_value" where
  "replace_method v r new =
     (case v of
        Str s \<Rightarrow> Inr (Str (replace_first r new s))
      | Buffer b \<Rightarrow> Inl TypeError)"

text \<open>The first pattern of \<^verbatim>\<open>SOURCE_MAP\<close> that matches, and its group 1.\<close>

fun find_map_ref :: "rx list \<Rightarrow> string \<Rightarrow> string option" where
  "find_map_ref [] text = None"
| "find_map_ref (pattern # patterns) text =
     (case rx_exec pattern [] text of
        None \<Rightarrow> find_map_ref patterns text
      | Some (pre, m, c, rest) \<Rightarrow>
          if grp_str c 1 = [] then find_map_ref patterns text else Some (grp_str c 1))"

text \<open>
  The \<^verbatim>\<open>try\<close> block that fetches and stores the map and rewrites the directive; \<open>Inl\<close> is
  its \<^verbatim>\<open>catch\<close>, entered with the files written so far.
\<close>

definition process_source_map ::
  "env \<Rightarrow> string \<Rightarrow> string \<Rightarrow> run \<Rightarrow> string \<Rightarrow> string \<Rightarrow> js_value \<Rightarrow> (error + string) \<times> run" where
  "process_source_map e baseUrl outDir st url sourceMapUrl processedContent =
     (case assetPath (env_URL e) baseUrl (paths st) url of
        (Inl err, al) \<Rightarrow> (Inl err, st\<lparr>paths := al\<rparr>)
      | (Inr filePath, al) \<Rightarrow>
          let st = st\<lparr>paths := al\<rparr>;
              mapPath = filePath @ ''.map'';
              mapFullPath = path_join [outDir, mapPath]
          in case (case read_file (env_cwd e) st mapFullPath of
                     Some mapContent \<Rightarrow> (Inr mapContent, st)
                   | None \<Rightarrow>
                       (case download e sourceMapUrl of
                          Inl err \<Rightarrow> (Inl err, st\<lparr>requests := requests st @ [sourceMapUrl]\<rparr>)
                        | Inr mapContent \<Rightarrow>
                            (case save (env_cwd e) outDir
                                    (st\<lparr>requests := requests st @ [sourceMapUrl]\<rparr>)
                                    mapPath mapContent of
                               (False, st) \<Rightarrow> (Inl IOError, st)
                             | (True, st) \<Rightarrow> (Inr mapContent, st)))) of
               (Inl err, st) \<Rightarrow> (Inl err, st)
             | (Inr mapContent, st) \<Rightarrow>
                 if \<not> env_JSON_parse e mapContent then (Inl SyntaxError, st)
                 else
                   let mapFileName = basename mapPath in
                   case replace_method processedContent rx_directive_line
                          (''//# sourceMappingURL='' @ mapFileName) of
                     Inl err \<Rightarrow> (Inl err, st)
                   | Inr v \<Rightarrow>
                       (case replace_method v rx_directive_block
                               (''/*# sourceMappingURL='' @ mapFileName @ '' */'') of
                          Inl err \<Rightarrow> (Inl err, st)
                        | Inr v' \<Rightarrow> (Inr (toString_utf8 v'), st)))"

definition set_downloaded :: "run \<Rightarrow> string \<Rightarrow> string \<Rightarrow> string \<Rightarrow> run" where
  "set_downloaded st url content filePath =
     st\<lparr>downloadedAssets := AList.update url content (downloadedAssets st),
        console := console st @ [Downloaded (basename filePath)]\<rparr>"

text \<open>
  The inner \<^verbatim>\<open>try\<close> around \<^verbatim>\<open>rewriteUrls\<close>: \<^verbatim>\<open>processedContent\<close> becomes the rewritten text
  as a \<^verbatim>\<open>Buffer\<close>, or stays \<^verbatim>\<open>content\<close> when the rewriter throws.
\<close>

definition rewrite_downloaded ::
  "env \<Rightarrow> string \<Rightarrow> run \<Rightarrow> string \<Rightarrow> string \<Rightarrow> string \<Rightarrow> js_value \<times> run" where
  "rewrite_downloaded e baseUrl st content url type =
     (case rewriteUrls (env_URL e) (env_cwd e) baseUrl (paths st) content url type of
        (Inl err, al) \<Rightarrow>
          (Buffer content, st\<lparr>paths := al, console := console st @ [FailedRewrite url]\<rparr>)
      | (Inr rewritten, al) \<Rightarrow> (Buffer rewritten, st\<lparr>paths := al\<rparr>))"

text \<open>
  The loop over \<^verbatim>\<open>SOURCE_MAP\<close>: the URL of the map named by the first directive found,
  \<^verbatim>\<open>null\<close> (\<open>Inr None\<close>) when there is none or it is a data URI. The \<^verbatim>\<open>new URL(mapRef, url)\<close>
  of a relative directive is outside the inner \<^verbatim>\<open>try\<close>: its throw is \<open>Inl\<close>.
\<close>

definition source_map_url :: "env \<Rightarrow> string \<Rightarrow> string \<Rightarrow> error + string option" where
  "source_map_url e url text =
     (case find_map_ref SOURCE_MAP text of
        None \<Rightarrow> Inr None
      | Some mapRef \<Rightarrow>
          if startsWith mapRef ''http'' then Inr (Some mapRef)
          else if \<not> startsWith mapRef ''data:'' then
            (case env_URL e mapRef (Some url) of
               None \<Rightarrow> Inl TypeError
             | Some m \<Rightarrow> Inr (Some (href m)))
          else Inr None)"

text \<open>
  The rest of the outer \<^verbatim>\<open>try\<close>, from \<^verbatim>\<open>if (enableSourceMaps && ...)\<close> on: what is put
  into \<^verbatim>\<open>downloadedAssets\<close>.
\<close>

definition store_asset ::
  "env \<Rightarrow> string \<Rightarrow> string \<Rightarrow> bool \<Rightarrow> run \<Rightarrow> string \<Rightarrow> string \<Rightarrow> string \<Rightarrow> string \<Rightarrow> js_value \<Rightarrow> run" where
  "store_asset e baseUrl outDir enableSourceMaps st url type filePath content processedContent =
     (if enableSourceMaps \<and> (type = ''js'' \<or> type = ''mjs'') then
        (case source_map_url e url (toString_utf8 processedContent) of
           Inl err \<Rightarrow> st\<lparr>console := console st @ [FailedDownload url]\<rparr>
         | Inr None \<Rightarrow> set_downloaded st url content filePath
         | Inr (Some sourceMapUrl) \<Rightarrow>
             if sourceMapUrl \<noteq> [] \<and> \<not> startsWith sourceMapUrl ''data:'' then
               (case process_source_map e baseUrl outDir
                       (st\<lparr>console := console st @ [FoundSourceMap sourceMapUrl]\<rparr>)
                       url sourceMapUrl processedContent of
                  (Inl err, st) \<Rightarrow>
                    set_downloaded (st\<lparr>console := console st @ [FailedSourceMap url]\<rparr>)
                      url content filePath
                | (Inr processed, st) \<Rightarrow> set_downloaded st url processed filePath)
             else set_downloaded st url content filePath)
      else set_downloaded st url content filePath)"

definition download_asset :: "env \<Rightarrow> string \<Rightarrow> string \<Rightarrow> bool \<Rightarrow> run \<Rightarrow> string \<times> string \<Rightarrow> run" where
  "download_asset e baseUrl outDir enableSourceMaps st asset =
     (case asset of (url, type) \<Rightarrow>
      case env_URL e url (Some baseUrl) of
        None \<Rightarrow> st\<lparr>console := console st @ [FailedDownload url]\<rparr>
      | Some u \<Rightarrow>
          if page_like u then st
          else
            (case assetPath (env_URL e) baseUrl (paths st) url of
               (Inl err, al) \<Rightarrow> st\<lparr>paths := al, console := console st @ [FailedDownload url]\<rparr>
             | (Inr filePath, al) \<Rightarrow>
                 let st = st\<lparr>paths := al\<rparr>;
                     fullPath = path_join [outDir, filePath]
                 in if stat_ok (env_cwd e) st fullPath then
                      st\<lparr>console := console st @ [Cached (basename filePath)]\<rparr>
                    else
                      let st = st\<lparr>requests := requests st @ [url]\<rparr> in
                      case download e url of
                        Inl err \<Rightarrow> st\<lparr>console := console st @ [FailedDownload url]\<rparr>
                      | Inr content \<Rightarrow>
                          (case rewrite_downloaded e baseUrl st content url type of
                             (processedContent, st) \<Rightarrow>
                               store_asset e baseUrl outDir enableSourceMaps st url type filePath
                                 content processedContent)))"

text \<open>Step 6: every downloaded asset is written to its allocated path.\<close>

fun save_assets :: "env \<Rightarrow> string \<Rightarrow> string \<Rightarrow> run \<Rightarrow> (string \<times> string) list \<Rightarrow> error + run" where
  "save_assets e baseUrl outDir st [] = Inr st"
| "save_assets e baseUrl outDir st ((url, content) # rest) =
     (case assetPath (env_URL e) baseUrl (paths st) url of
        (Inl err, al) \<Rightarrow> Inl err
      | (Inr filePath, al) \<Rightarrow>
          (case save (env_cwd e) outDir (st\<lparr>paths := al\<rparr>) filePath content of
             (False, st) \<Rightarrow> Inl IOError
           | (True, st) \<Rightarrow> save_assets e baseUrl outDir st rest))"

text \<open>
  The run on a file system with the files \<open>fs\<close> and the directories \<open>ds\<close>, in two parts:
  \<open>None\<close> if the worklist never empties, \<open>Some (Inl err)\<close> if an exception leaves
  \<^verbatim>\<open>broddy\<close>, \<open>Some (Inr st)\<close> with the state reached otherwise. \<open>scan_phase\<close> is the
  program up to the end of step 3: the output folder is made, the pages are saved and
  scanned, the worklist is emptied.
\<close>

definition scan_phase ::
  "env \<Rightarrow> string \<Rightarrow> string list \<Rightarrow> string \<Rightarrow> bool \<Rightarrow> (string \<times> string) list \<Rightarrow> string list \<Rightarrow>
     (error + run) option" where
  "scan_phase e baseUrl pages outDir enableSourceMaps fs ds =
     (case mkdir_p (env_cwd e) (run_init fs ds) outDir of
        None \<Rightarrow> Some (Inl IOError)
      | Some st \<Rightarrow>
     (case download_pages e baseUrl outDir st pages of
        Inl err \<Rightarrow> Some (Inl err)
      | Inr st \<Rightarrow>
     (case scan_pages e baseUrl outDir enableSourceMaps st of
        Inl err \<Rightarrow> Some (Inl err)
      | Inr st \<Rightarrow>
     (case discover e enableSourceMaps (map fst (assetUrls st)) st of
        None \<Rightarrow> None
      | Some st \<Rightarrow> Some (Inr st)))))"

text \<open>
  Steps 4 to 6 and the last line printed, which carries the page count and
  \<^verbatim>\<open>downloadedAssets.size\<close>.
\<close>

definition broddy ::
  "env \<Rightarrow> string \<Rightarrow> string list \<Rightarrow> string \<Rightarrow> bool \<Rightarrow> (string \<times> string) list \<Rightarrow> string list \<Rightarrow>
     (error + run) option" where
  "broddy e baseUrl pages outDir enableSourceMaps fs ds =
     (case scan_phase e baseUrl pages outDir enableSourceMaps fs ds of
        None \<Rightarrow> None
      | Some (Inl err) \<Rightarrow> Some (Inl err)
      | Some (Inr st) \<Rightarrow>
     (case precompute_paths (env_URL e) baseUrl (paths st) (map fst (assetUrls st)) of
        Inl err \<Rightarrow> Some (Inl err)
      | Inr al \<Rightarrow>
          let st = foldl (download_asset e baseUrl outDir enableSourceMaps)
                     (st\<lparr>paths := al\<rparr>) (assetUrls st)
          in case save_assets e baseUrl outDir st (downloadedAssets st) of
               Inl err \<Rightarrow> Some (Inl err)
             | Inr st \<Rightarrow>
                 Some (Inr (st\<lparr>console := console st @
                         [Stats (length pages) (length (downloadedAssets st))]\<rparr>))))"

subsection \<open>A URL constructor for the examples\<close>

text \<open>
  The examples need \<^verbatim>\<open>new URL\<close> at concrete strings. \<open>ascii_URL\<close> follows the WHATWG
  rules on the inputs used there: ASCII \<^verbatim>\<open>http(s)://host/path?query#fragment\<close>, other
  schemes with an opaque path and origin \<^verbatim>\<open>null\<close>, and references resolved against an
  http(s) base (no dot segments, ports, credentials or percent-encoding). The general
  theorems hold for every constructor.
\<close>

definition split_scheme :: "string \<Rightarrow> (string \<times> string) option" where
  "split_scheme s =
     (let sch = takeWhile (\<lambda>c. c \<noteq> CHR '':'') s in
      if length sch < length s \<and> sch \<noteq> [] \<and> is_alpha (hd sch) \<and> list_all is_scheme_char sch
      then Some (sch, drop (Suc (length sch)) s) else None)"

definition parse_absolute :: "string \<Rightarrow> parsed_url option" where
  "parse_absolute s =
     (case split_scheme s of
        None \<Rightarrow> None
      | Some (sch, rest) \<Rightarrow>
          if sch = ''http'' \<or> sch = ''https'' then
            (if \<not> startsWith rest ''//'' then None
             else
               let r = drop 2 rest;
                   host = takeWhile (\<lambda>c. c \<notin> set ''/?#'') r;
                   r1 = dropWhile (\<lambda>c. c \<notin> set ''/?#'') r;
                   p = takeWhile (\<lambda>c. c \<notin> set ''?#'') r1;
                   r2 = dropWhile (\<lambda>c. c \<notin> set ''?#'') r1;
                   q = takeWhile (\<lambda>c. c \<noteq> CHR ''#'') r2;
                   frag = dropWhile (\<lambda>c. c \<noteq> CHR ''#'') r2;
                   path = (if p = [] then ''/'' else p)
               in if host = [] \<or> list_ex (\<lambda>c. c \<in> set '' []<>^|'') host then None
                  else Some \<lparr>href = sch @ ''://'' @ host @ path @ q @ frag,
                             origin = sch @ ''://'' @ host,
                             pathname = path,
                             search = (if q = ''?'' then [] else q)\<rparr>)
          else
            let p = takeWhile (\<lambda>c. c \<notin> set ''?#'') rest;
                r2 = dropWhile (\<lambda>c. c \<notin> set ''?#'') rest;
                q = takeWhile (\<lambda>c. c \<noteq> CHR ''#'') r2
            in Some \<lparr>href = s, origin = ''null'', pathname = p,
                      search = (if q = ''?'' then [] else q)\<rparr>)"

definition dir_part :: "string \<Rightarrow> string" where
  "dir_part p = rev (dropWhile (\<lambda>c. \<not> is_slash c) (rev p))"

definition ascii_URL :: url_ctor where
  "ascii_URL ref base =
     (case split_scheme ref of
        Some _ \<Rightarrow> parse_absolute ref
      | None \<Rightarrow>
          (case base of
             None \<Rightarrow> None
           | Some b \<Rightarrow>
               (case parse_absolute b of
                  None \<Rightarrow> None
                | Some bu \<Rightarrow>
                    if origin bu = ''null'' then None
                    else if startsWith ref ''//'' then
                      parse_absolute (takeWhile (\<lambda>c. c \<noteq> CHR '':'') (origin bu) @ '':'' @ ref)
                    else if startsWith ref ''/'' then parse_absolute (origin bu @ ref)
                    else if ref = [] then Some bu
                    else if startsWith ref ''#'' then
                      parse_absolute (origin bu @ pathname bu @ search bu @ ref)
                    else if startsWith ref ''?'' then
                      parse_absolute (origin bu @ pathname bu @ ref)
                    else parse_absolute (origin bu @ dir_part (pathname bu) @ ref))))"

subsection \<open>A site for the examples\<close>

text \<open>
  A site is a table from URL to body: a request to a URL that does not parse is rejected,
  a listed URL answers 200 with its body, every other URL answers 404. A document is
  serialised as cheerio does it: the elements that open the document and belong to the
  head inside \<^verbatim>\<open>head\<close>, the others inside \<^verbatim>\<open>body\<close>, void elements without an end tag.
  \<open>demo_load\<close> reads back the documents it is given.
\<close>

definition demo_fetch :: "(string \<times> string) list \<Rightarrow> string \<Rightarrow> response option" where
  "demo_fetch site url =
     (if ascii_URL url None = None then None
      else case map_of site url of
             Some b \<Rightarrow> Some \<lparr>ok = True, body = b\<rparr>
           | None \<Rightarrow> Some \<lparr>ok = False, body = ''Not Found''\<rparr>)"

definition void_tag :: "element \<Rightarrow> bool" where
  "void_tag el = (tag el \<in> set [''img'', ''link'', ''meta'', ''base'', ''source'', ''embed'', ''br'',
     ''hr'', ''input''])"

definition head_tag :: "element \<Rightarrow> bool" where
  "head_tag el = (tag el \<in> set [''script'', ''link'', ''style'', ''meta'', ''title'', ''base''])"

definition render_element :: "element \<Rightarrow> string" where
  "render_element el =
     ''<'' @ tag el @
     concat (map (\<lambda>(a, v). '' '' @ a @ ''='' @ [CHR 0x22] @ v @ [CHR 0x22]) (attribs el)) @
     ''>'' @ (if void_tag el then [] else inner el @ ''</'' @ tag el @ ''>'')"

definition demo_html :: "element list \<Rightarrow> string" where
  "demo_html els =
     ''<html><head>'' @ concat (map render_element (takeWhile head_tag els)) @
     ''</head><body>'' @ concat (map render_element (dropWhile head_tag els)) @
     ''</body></html>''"

definition demo_load :: "element list list \<Rightarrow> string \<Rightarrow> element list" where
  "demo_load docs html = (case filter (\<lambda>d. demo_html d = html) docs of [] \<Rightarrow> [] | d # _ \<Rightarrow> d)"

definition demo_env :: "(string \<times> string) list \<Rightarrow> element list list \<Rightarrow> env" where
  "demo_env site docs =
     \<lparr>env_URL = ascii_URL, env_fetch = demo_fetch site, env_load = demo_load docs,
      env_html = demo_html, env_JSON_parse = (\<lambda>s. startsWith s ''{''),
      env_cwd = ''/home/u/site''\<rparr>"

subsection \<open>Evaluation rules for the examples\<close>

named_theorems ev \<open>definitions unfolded when an example is evaluated\<close>

lemmas [ev] = ascii_URL_def parse_absolute_def split_scheme_def is_alpha_def is_scheme_char_def
  startsWith_def endsWith_def extname_def last_component_def strip_trailing_def is_slash_def
  Let_def dir_part_def search_hash_def hash_step_def abs_hash_36_def toString_def
  radix_digits.simps digit_char_def assetPath_def alloc_init_def slice0_neg_def
  collision_loop.simps suffixed_def
  segments_def is_absolute_def resolve_segs_def resolve_def relative_def dirname_def
  basename_def normalize_def path_join_def getRelativePath_def
  grp_def grp_str_def rx_test_def matchAll_def replace_all_def replace_first_def
  is_space_def is_quote3_def is_quote2_def not_newline_def trim_def
  rx_scheme_url_def rx_js_string_def rx_js_fetch_def rx_js_new_URL_def rx_css_url_def
  rx_css_import_def rx_json_url_def relative_target_def rewriteUrls_def
  rx_quoted_ref_def rx_call_def JS_IMPORTS_def rx_css_any_url_def CSS_URLS_def
  rx_sm_prefix_def rx_sm_line_def rx_sm_block_def SOURCE_MAP_def JSON_ASSETS_def
  looks_like_path_def set_add_def extract_js_ref_def extract_map_ref_def extract_css_ref_def
  extractAssets_def
  is_digit_def digit_value_def rx_directive_line_def rx_directive_block_def
  run_init_def has_def trailing_slash_def dir_chain_def mkdir_p_def write_file_def
  read_file_def stat_ok_def readdir_recursive_def
  save_def download_def attr_def set_attr_def rewrite_attr_def
  page_file_def download_page_def toLowerCase_def type_of_ext_def type_of_url_def
  asset_selector_def scan_tag_attr_def rx_http_url_def rx_trailing_punct_def
  scan_attr_value_def scan_html_def html_files_def scan_pages_def scan_asset_def
  discover.simps page_like_def toString_utf8_def replace_method_def process_source_map_def
  set_downloaded_def rewrite_downloaded_def source_map_url_def store_asset_def
  download_asset_def scan_phase_def broddy_def
  demo_fetch_def void_tag_def head_tag_def render_element_def demo_html_def demo_load_def
  demo_env_def

section \<open>Properties of the path allocator\<close>

lemma collision_loop_free: "collision_loop used nm ext c \<notin> set used"
  by (induction used nm ext c rule: collision_loop.induct) (simp add: collision_loop.simps)

definition alloc_inv :: "alloc \<Rightarrow> bool" where
  "alloc_inv st = (ran (filePathMap st) \<subseteq> set (usedPaths st) \<and>
     (\<forall>u v p. filePathMap st u = Some p \<and> filePathMap st v = Some p \<longrightarrow> u = v))"

lemma assetPath_new:
  assumes "filePathMap st url = None" "assetPath URL b st url = (Inr p, st')"
  shows "p \<notin> set (usedPaths st) \<and> filePathMap st' = (filePathMap st)(url \<mapsto> p) \<and>
    usedPaths st' = usedPaths st @ [p]"
  using assms unfolding assetPath_def
  by (auto simp: Let_def collision_loop_free split: option.splits if_splits)

lemma assetPath_error:
  assumes "assetPath URL b st url = (Inl e, st')"
  shows "st' = st"
  using assms unfolding assetPath_def
  by (auto simp: Let_def split: option.splits if_splits)

lemma assetPath_known:
  assumes "filePathMap st url = Some p"
  shows "assetPath URL b st url = (Inr p, st)"
  using assms unfolding assetPath_def by simp

lemma assetPath_inv: "alloc_inv st \<Longrightarrow> alloc_inv (snd (assetPath URL b st url))"
proof (cases "filePathMap st url")
  case (Some p)
  assume "alloc_inv st"
  with Some show ?thesis by (simp add: assetPath_known)
next
  case None
  assume inv: "alloc_inv st"
  obtain r st' where r: "assetPath URL b st url = (r, st')" by (cases "assetPath URL b st url")
  show ?thesis
  proof (cases r)
    case (Inl e)
    with r inv show ?thesis by (auto dest: assetPath_error)
  next
    case (Inr p)
    with r have n: "p \<notin> set (usedPaths st)" "filePathMap st' = (filePathMap st)(url \<mapsto> p)"
      "usedPaths st' = usedPaths st @ [p]"
      using assetPath_new [OF None] by auto
    have "ran (filePathMap st') \<subseteq> set (usedPaths st')"
      using inv n None by (auto simp: alloc_inv_def ran_def split: if_splits)
    moreover have "\<forall>u v q. filePathMap st' u = Some q \<and> filePathMap st' v = Some q \<longrightarrow> u = v"
      using inv n None by (auto simp: alloc_inv_def ran_def split: if_splits)
    ultimately show ?thesis using r by (simp add: alloc_inv_def)
  qed
qed

lemma assetPath_calls_inv: "alloc_inv st \<Longrightarrow> alloc_inv (assetPath_calls URL b us st)"
  by (induction us arbitrary: st) (auto intro: assetPath_inv)

lemma assetPath_keeps:
  "filePathMap st u = Some p \<Longrightarrow> filePathMap (snd (assetPath URL b st v)) u = Some p"
  unfolding assetPath_def by (auto simp: Let_def split: option.splits)

lemma assetPath_calls_keeps:
  "filePathMap st u = Some p \<Longrightarrow> filePathMap (assetPath_calls URL b vs st) u = Some p"
  by (induction vs arbitrary: st) (auto intro: assetPath_keeps)

lemma assetPath_result:
  "assetPath URL b st u = (Inr p, st1) \<Longrightarrow> filePathMap st1 u = Some p"
  unfolding assetPath_def by (auto simp: Let_def split: option.splits)

text \<open>
  The strings that \<^verbatim>\<open>assetPath\<close> hands out: after any sequence of allocator calls from the
  empty state, two different URLs that both hold a path hold different strings. Whether
  two strings name one file is settled where the files are written.
\<close>

lemma assetPath_strings_differ:
  assumes "st = assetPath_calls URL baseUrl urls alloc_init"
    and "filePathMap st u = Some p" and "filePathMap st v = Some q" and "u \<noteq> v"
  shows "p \<noteq> q"
proof -
  have "alloc_inv alloc_init" by (simp add: alloc_inv_def alloc_init_def)
  then have "alloc_inv st" unfolding assms(1) by (rule assetPath_calls_inv)
  with assms(2-4) show ?thesis unfolding alloc_inv_def by blast
qed

lemma img_queries_allocated:
  "assetPath_calls ascii_URL ''https://x.test''
     [''https://x.test/img?a=1'', ''https://x.test/img?a=2''] alloc_init =
   \<lparr>filePathMap = [''https://x.test/img?a=1'' \<mapsto> ''/img-169li'',
                    ''https://x.test/img?a=2'' \<mapsto> ''/img-169lj''],
     usedPaths = [''/img-169li'', ''/img-169lj'']\<rparr>"
  by (simp add: ev)

text \<open>
  Two URLs that differ in the query only: \<^verbatim>\<open>https://x.test/img?a=1\<close> and
  \<^verbatim>\<open>https://x.test/img?a=2\<close> get \<^verbatim>\<open>/img-169li\<close> and \<^verbatim>\<open>/img-169lj\<close>.
\<close>

lemma img_queries_differ:
  "filePathMap (assetPath_calls ascii_URL ''https://x.test''
       [''https://x.test/img?a=1'', ''https://x.test/img?a=2''] alloc_init)
     ''https://x.test/img?a=1'' = Some ''/img-169li'' \<and>
   filePathMap (assetPath_calls ascii_URL ''https://x.test''
       [''https://x.test/img?a=1'', ''https://x.test/img?a=2''] alloc_init)
     ''https://x.test/img?a=2'' = Some ''/img-169lj'' \<and>
   ''/img-169li'' \<noteq> ''/img-169lj''"
proof -
  let ?st = "assetPath_calls ascii_URL ''https://x.test''
       [''https://x.test/img?a=1'', ''https://x.test/img?a=2''] alloc_init"
  have a: "filePathMap ?st ''https://x.test/img?a=1'' = Some ''/img-169li''"
    unfolding img_queries_allocated by simp
  have b: "filePathMap ?st ''https://x.test/img?a=2'' = Some ''/img-169lj''"
    unfolding img_queries_allocated by simp
  have c: "''https://x.test/img?a=1'' \<noteq> ''https://x.test/img?a=2''" by simp
  from assetPath_strings_differ [OF refl a b c] a b show ?thesis by blast
qed

text \<open>
  C3 (idempotent allocation). Once a call has returned the path \<open>p\<close> for \<open>u\<close>, every later
  call for \<open>u\<close>, after any further allocator calls, returns \<open>p\<close> again and leaves the
  state as it is; the entry of \<open>u\<close> in \<^verbatim>\<open>filePathMap\<close> stays \<open>p\<close>.
\<close>

theorem assetPath_idempotent:
  assumes "assetPath URL baseUrl st u = (Inr p, st1)"
    and "st2 = assetPath_calls URL baseUrl vs st1"
  shows "assetPath URL baseUrl st2 u = (Inr p, st2) \<and> filePathMap st2 u = Some p"
proof -
  from assms(1) have "filePathMap st1 u = Some p" by (rule assetPath_result)
  then have "filePathMap st2 u = Some p" unfolding assms(2) by (rule assetPath_calls_keeps)
  then show ?thesis by (simp add: assetPath_known)
qed

lemma img_first_allocated:
  "assetPath ascii_URL ''https://x.test'' alloc_init ''https://x.test/img?a=1'' =
     (Inr ''/img-169li'',
      \<lparr>filePathMap = [''https://x.test/img?a=1'' \<mapsto> ''/img-169li''],
        usedPaths = [''/img-169li'']\<rparr>)"
  by (simp add: ev)

theorem assetPath_idempotent_witness:
  "fst (assetPath ascii_URL ''https://x.test''
      (assetPath_calls ascii_URL ''https://x.test''
         [''https://x.test/img?a=2'', ''https://x.test/img'']
         (snd (assetPath ascii_URL ''https://x.test'' alloc_init ''https://x.test/img?a=1'')))
      ''https://x.test/img?a=1'') = Inr ''/img-169li''"
  using assetPath_idempotent [OF img_first_allocated refl,
      of "[''https://x.test/img?a=2'', ''https://x.test/img'']"]
  by (simp add: img_first_allocated)

section \<open>Properties of the rewriter\<close>

lemma assetPath_succeeds:
  assumes "URL url (Some baseUrl) = Some u"
  shows "\<exists>p st'. assetPath URL baseUrl st url = (Inr p, st')"
  using assms unfolding assetPath_def by (auto simp: Let_def split: option.splits)

text \<open>
  C10 (cross-origin files). When the origin of the file's own URL differs from the origin
  of the target site, \<^verbatim>\<open>rewriteUrls\<close> returns the content as it received it, whatever the
  content, its type and the map hold.
\<close>

theorem rewriteUrls_cross_origin_unchanged:
  assumes "URL baseUrl None = Some baseUrlObj"
    and "URL fileUrl (Some baseUrl) = Some fileUrlObj"
    and "origin fileUrlObj \<noteq> origin baseUrlObj"
  shows "fst (rewriteUrls URL cwd baseUrl st content fileUrl fileType) = Inr content"
proof -
  obtain p st' where "assetPath URL baseUrl st fileUrl = (Inr p, st')"
    using assetPath_succeeds [of URL fileUrl baseUrl fileUrlObj st] assms(2) by blast
  with assms show ?thesis by (simp add: rewriteUrls_def)
qed

text \<open>
  Three assets of one run: \<^verbatim>\<open>https://cdn.test/lib\<close> takes \<^verbatim>\<open>/lib\<close>, and
  \<^verbatim>\<open>https://x.test/lib\<close>, which has the same path and no extension, is renamed by the
  collision branch.
\<close>

definition cdn_alloc :: alloc where
  "cdn_alloc = assetPath_calls ascii_URL ''https://x.test''
     [''https://cdn.test/lib'', ''https://x.test/lib'', ''https://x.test/js/app.js''] alloc_init"

lemma cdn_alloc_eval:
  "cdn_alloc =
     \<lparr>filePathMap = [''https://cdn.test/lib'' \<mapsto> ''/lib'', ''https://x.test/lib'' \<mapsto> ''-1'',
                      ''https://x.test/js/app.js'' \<mapsto> ''/js/app.js''],
       usedPaths = [''/lib'', ''-1'', ''/js/app.js'']\<rparr>"
  by (simp add: cdn_alloc_def ev)

theorem rewriteUrls_cross_origin_unchanged_witness:
  "fst (rewriteUrls ascii_URL ''/home/u/site'' ''https://x.test'' cdn_alloc
         ''import(\"https://x.test/js/app.js\")'' ''https://cdn.test/lib'' ''js'') =
     Inr ''import(\"https://x.test/js/app.js\")''"
proof -
  have b: "ascii_URL ''https://x.test'' None =
      Some \<lparr>href = ''https://x.test/'', origin = ''https://x.test'', pathname = ''/'', search = []\<rparr>"
    by (simp add: ev)
  have f: "ascii_URL ''https://cdn.test/lib'' (Some ''https://x.test'') =
      Some \<lparr>href = ''https://cdn.test/lib'', origin = ''https://cdn.test'', pathname = ''/lib'',
            search = []\<rparr>"
    by (simp add: ev)
  show ?thesis
    using rewriteUrls_cross_origin_unchanged
      [of ascii_URL "''https://x.test''" _ "''https://cdn.test/lib''", OF b f]
    by simp
qed

text \<open>
  C4 (relative-path round trip), at a failing input. The run of \<open>cdn_alloc\<close> works in
  \<^verbatim>\<open>/home/u/site\<close> and writes into \<^verbatim>\<open>mirror\<close>. The allocator gives
  \<^verbatim>\<open>https://x.test/lib\<close> the path \<^verbatim>\<open>-1\<close>: the collision branch takes
  \<^verbatim>\<open>filePath.slice(0, -ext.length)\<close> with an empty extension. \<^verbatim>\<open>rewriteUrls\<close> then writes
  \<^verbatim>\<open>../home/u/site/-1\<close> into \<^verbatim>\<open>/js/app.js\<close>; from the directory of that file the reference
  leads to \<^verbatim>\<open>mirror/home/u/site/-1\<close>, while the asset is saved as \<^verbatim>\<open>mirror/-1\<close>.
\<close>

theorem relative_path_round_trip_fails:
  "filePathMap cdn_alloc ''https://x.test/lib'' = Some ''-1'' \<and>
   filePathMap cdn_alloc ''https://x.test/js/app.js'' = Some ''/js/app.js'' \<and>
   fst (rewriteUrls ascii_URL ''/home/u/site'' ''https://x.test'' cdn_alloc
          ''import(\"https://x.test/lib\")'' ''https://x.test/js/app.js'' ''js'') =
     Inr ''import(\"../home/u/site/-1\")'' \<and>
   getRelativePath ''/home/u/site'' ''/js/app.js'' ''-1'' = ''../home/u/site/-1'' \<and>
   path_join [''mirror'', dirname ''/js/app.js'', ''../home/u/site/-1''] = ''mirror/home/u/site/-1'' \<and>
   path_join [''mirror'', ''-1''] = ''mirror/-1''"
  unfolding cdn_alloc_eval by (simp add: ev)

section \<open>Properties of the extractor\<close>

text \<open>
  C8 (classifier safety), at a failing input. With source maps enabled, the directive
  branch of \<^verbatim>\<open>extractAssets\<close> has no test for \<^verbatim>\<open>data:\<close>: an inline source map is resolved
  by \<^verbatim>\<open>new URL\<close>, which accepts it, and the data URI joins the extracted set.
\<close>

theorem extractAssets_adds_data_uri:
  "extractAssets ascii_URL True ''//# sourceMappingURL=data:application/json;base64,e30=''
     ''js'' ''https://x.test/app.js'' = [''data:application/json;base64,e30='']"
  by (simp add: ev)

section \<open>Properties of the crawl\<close>

text \<open>
  The scenario of C1: the page \<^verbatim>\<open>/\<close> holds one script element, \<^verbatim>\<open>app.js\<close> imports
  \<^verbatim>\<open>chunk.js\<close>, and all three are served. The run starts in \<^verbatim>\<open>/home/u/site\<close> on an empty
  file system and writes into \<^verbatim>\<open>mirror\<close>.
\<close>

definition page_dom :: "element list" where
  "page_dom = [\<lparr>tag = ''script'', attribs = [(''src'', ''https://x.test/app.js'')], inner = []\<rparr>]"

definition site1 :: "(string \<times> string) list" where
  "site1 =
     [(''https://x.test/'', demo_html page_dom),
      (''https://x.test/app.js'', ''import(\"https://x.test/chunk.js\")''),
      (''https://x.test/chunk.js'', ''export default 1'')]"

lemma site1_run:
  "broddy (demo_env site1 [page_dom]) ''https://x.test'' [''/''] ''mirror'' False [] [] =
   Some (Inr
     \<lparr>files = [(''/home/u/site/mirror/index.html'',
                ''<html><head><script src=\"https://x.test/app.js\"></script></head><body></body></html>''),
               (''/home/u/site/mirror/app.js'', ''import(\"https://x.test/chunk.js\")''),
               (''/home/u/site/mirror/chunk.js'', ''export default 1'')],
      dirs = [''/'', ''/home'', ''/home/u'', ''/home/u/site'', ''/home/u/site/mirror''],
      assetUrls = [(''https://x.test/app.js'', ''js''), (''https://x.test/chunk.js'', ''js'')],
      processedAssets = [''https://x.test/app.js'', ''https://x.test/chunk.js''],
      paths = \<lparr>filePathMap = [''https://x.test/app.js'' \<mapsto> ''/app.js'',
                                ''https://x.test/chunk.js'' \<mapsto> ''/chunk.js''],
                usedPaths = [''/app.js'', ''/chunk.js'']\<rparr>,
      downloadedAssets = [(''https://x.test/app.js'', ''import(\"https://x.test/chunk.js\")''),
                          (''https://x.test/chunk.js'', ''export default 1'')],
      console = [Page ''https://x.test/'', Saved ''index.html'', Found ''https://x.test/chunk.js'',
                 Downloaded ''app.js'', Downloaded ''chunk.js'', Stats 1 2],
      requests = [''https://x.test/app.js'', ''https://x.test/chunk.js'',
                  ''https://x.test/app.js'', ''https://x.test/chunk.js'']\<rparr>)"
  by (simp add: ev site1_def page_dom_def)

text \<open>
  C1 (the rewritten mirror), at the scenario. The run completes and reports 2 assets, but
  nothing it saved is rewritten: \<^verbatim>\<open>index.html\<close> keeps the absolute \<^verbatim>\<open>src\<close> (step 1 rewrites
  with the map, which is still empty then) and \<^verbatim>\<open>app.js\<close> keeps the absolute import
  (step 5 stores \<^verbatim>\<open>content\<close>, not the rewritten \<^verbatim>\<open>processedContent\<close>).
\<close>

theorem scenario_files_not_rewritten:
  "\<exists>st. broddy (demo_env site1 [page_dom]) ''https://x.test'' [''/''] ''mirror'' False [] [] =
          Some (Inr st) \<and>
     map_of (files st) ''/home/u/site/mirror/index.html'' =
       Some ''<html><head><script src=\"https://x.test/app.js\"></script></head><body></body></html>'' \<and>
     map_of (files st) ''/home/u/site/mirror/app.js'' = Some ''import(\"https://x.test/chunk.js\")'' \<and>
     map_of (files st) ''/home/u/site/mirror/chunk.js'' = Some ''export default 1'' \<and>
     last (console st) = Stats 1 2"
  unfolding site1_run by simp

subsection \<open>Two URLs, one file\<close>

text \<open>
  A page with two scripts whose URLs differ by an empty path segment,
  \<^verbatim>\<open>https://x.test/a//b.js\<close> and \<^verbatim>\<open>https://x.test/a/b.js\<close>, served with different bodies.
\<close>

definition twin_dom :: "element list" where
  "twin_dom =
     [\<lparr>tag = ''script'', attribs = [(''src'', ''https://x.test/a//b.js'')], inner = []\<rparr>,
      \<lparr>tag = ''script'', attribs = [(''src'', ''https://x.test/a/b.js'')], inner = []\<rparr>]"

definition twin_site :: "(string \<times> string) list" where
  "twin_site =
     [(''https://x.test/'', demo_html twin_dom),
      (''https://x.test/a//b.js'', ''first()''),
      (''https://x.test/a/b.js'', ''second()'')]"

lemma twin_run:
  "broddy (demo_env twin_site [twin_dom]) ''https://x.test'' [''/''] ''mirror'' False [] [] =
   Some (Inr
     \<lparr>files = [(''/home/u/site/mirror/index.html'',
                ''<html><head><script src=\"https://x.test/a//b.js\"></script><script src=\"https://x.test/a/b.js\"></script></head><body></body></html>''),
               (''/home/u/site/mirror/a/b.js'', ''second()'')],
      dirs = [''/'', ''/home'', ''/home/u'', ''/home/u/site'', ''/home/u/site/mirror'',
              ''/home/u/site/mirror/a''],
      assetUrls = [(''https://x.test/a//b.js'', ''js''), (''https://x.test/a/b.js'', ''js'')],
      processedAssets = [''https://x.test/a//b.js'', ''https://x.test/a/b.js''],
      paths = \<lparr>filePathMap = [''https://x.test/a//b.js'' \<mapsto> ''/a//b.js'',
                                ''https://x.test/a/b.js'' \<mapsto> ''/a/b.js''],
                usedPaths = [''/a//b.js'', ''/a/b.js'']\<rparr>,
      downloadedAssets = [(''https://x.test/a//b.js'', ''first()''),
                          (''https://x.test/a/b.js'', ''second()'')],
      console = [Page ''https://x.test/'', Saved ''index.html'',
                 Downloaded ''b.js'', Downloaded ''b.js'', Stats 1 2],
      requests = [''https://x.test/a//b.js'', ''https://x.test/a/b.js'',
                  ''https://x.test/a//b.js'', ''https://x.test/a/b.js'']\<rparr>)"
  by (simp add: ev twin_site_def twin_dom_def)

text \<open>
  C2 (collision freedom), at a failing input. \<^verbatim>\<open>assetPath\<close> compares the path strings,
  and \<^verbatim>\<open>/a//b.js\<close> and \<^verbatim>\<open>/a/b.js\<close> differ; \<^verbatim>\<open>save\<close> joins each with the output folder,
  and \<^verbatim>\<open>path.join\<close> normalises both to \<^verbatim>\<open>mirror/a/b.js\<close>. Both assets are downloaded and
  counted, step 6 writes the second over the first, and the body of the first asset is
  in no file of the mirror.
\<close>

theorem distinct_urls_one_file:
  "\<exists>st. broddy (demo_env twin_site [twin_dom]) ''https://x.test'' [''/''] ''mirror'' False [] [] =
          Some (Inr st) \<and>
     filePathMap (paths st) ''https://x.test/a//b.js'' = Some ''/a//b.js'' \<and>
     filePathMap (paths st) ''https://x.test/a/b.js'' = Some ''/a/b.js'' \<and>
     path_join [''mirror'', ''/a//b.js''] = ''mirror/a/b.js'' \<and>
     path_join [''mirror'', ''/a/b.js''] = ''mirror/a/b.js'' \<and>
     map_of (downloadedAssets st) ''https://x.test/a//b.js'' = Some ''first()'' \<and>
     map_of (downloadedAssets st) ''https://x.test/a/b.js'' = Some ''second()'' \<and>
     map_of (files st) ''/home/u/site/mirror/a/b.js'' = Some ''second()'' \<and>
     ''first()'' \<notin> snd ` set (files st) \<and>
     length (files st) = 2 \<and>
     last (console st) = Stats 1 2"
  unfolding twin_run by (simp add: ev)

subsection \<open>The discovery worklist\<close>

definition keys :: "run \<Rightarrow> string set" where
  "keys st = fst ` set (assetUrls st)"

lemma has_keys: "has (assetUrls st) u \<longleftrightarrow> u \<in> keys st"
  by (simp add: has_def keys_def map_of_eq_None_iff)

lemma update_new_key: "k \<notin> fst ` set al \<Longrightarrow> AList.update k v al = al @ [(k, v)]"
  by (induction al) auto

lemma add_found_spec:
  "add_found URL found st tp = (fin, st', tp') \<Longrightarrow>
   \<exists>new. tp' = tp @ new \<and> distinct new \<and> set new \<inter> keys st = {} \<and> set new \<subseteq> set found \<and>
     map fst (assetUrls st') = map fst (assetUrls st) @ new \<and>
     processedAssets st' = processedAssets st \<and> requests st' = requests st"
proof (induction found arbitrary: st tp)
  case Nil
  then show ?case by auto
next
  case (Cons f found)
  show ?case
  proof (cases "\<not> has (assetUrls st) f \<and> f \<notin> set (processedAssets st)")
    case False
    with Cons.prems have "add_found URL found st tp = (fin, st', tp')" by auto
    from Cons.IH [OF this] show ?thesis by auto
  next
    case True
    show ?thesis
    proof (cases "type_of_url URL f")
      case None
      with True Cons.prems have "st' = st" "tp' = tp" by auto
      then show ?thesis by auto
    next
      case (Some ty)
      let ?st1 = "st\<lparr>assetUrls := AList.update f ty (assetUrls st), console := console st @ [Found f]\<rparr>"
      from True Some Cons.prems have "add_found URL found ?st1 (tp @ [f]) = (fin, st', tp')" by simp
      from Cons.IH [OF this] obtain new where n: "tp' = (tp @ [f]) @ new" "distinct new"
        "set new \<inter> keys ?st1 = {}" "set new \<subseteq> set found"
        "map fst (assetUrls st') = map fst (assetUrls ?st1) @ new"
        "processedAssets st' = processedAssets ?st1" "requests st' = requests ?st1" by blast
      have fk: "f \<notin> keys st" using True by (simp add: has_keys)
      then have u: "AList.update f ty (assetUrls st) = assetUrls st @ [(f, ty)]"
        unfolding keys_def by (rule update_new_key)
      have k1: "keys ?st1 = insert f (keys st)" by (simp add: keys_def u)
      have "tp' = tp @ (f # new)" using n(1) by simp
      moreover have "distinct (f # new)" using n(2,3) k1 by auto
      moreover have "set (f # new) \<inter> keys st = {}" using n(3) k1 fk by auto
      moreover have "set (f # new) \<subseteq> set (f # found)" using n(4) by auto
      moreover have "map fst (assetUrls st') = map fst (assetUrls st) @ (f # new)"
        using n(5) u by simp
      ultimately show ?thesis using n(6,7) by (intro exI [of _ "f # new"]) simp
    qed
  qed
qed

text \<open>
  \<open>closed_under e sm U\<close>: whatever a successful download returns, the references
  extracted from it lie in \<open>U\<close>.
\<close>

definition closed_under :: "env \<Rightarrow> bool \<Rightarrow> string set \<Rightarrow> bool" where
  "closed_under e enableSourceMaps U =
     (\<forall>url content type. download e url = Inr content \<longrightarrow>
        set (extractAssets (env_URL e) enableSourceMaps content type url) \<subseteq> U)"

lemma scan_asset_spec:
  assumes "scan_asset e sm st tp url = (st', tp')" and "closed_under e sm U"
  shows "\<exists>new. tp' = tp @ new \<and> distinct new \<and> set new \<inter> keys st = {} \<and> set new \<subseteq> U \<and>
     map fst (assetUrls st') = map fst (assetUrls st) @ new \<and>
     processedAssets st' = processedAssets st @ [url] \<and>
     requests st' = requests st @ [url]"
proof (cases "download e url")
  case (Inl err)
  with assms(1) show ?thesis by (auto simp: scan_asset_def Let_def keys_def)
next
  case (Inr content)
  let ?st1 = "st\<lparr>processedAssets := processedAssets st @ [url], requests := requests st @ [url]\<rparr>"
  let ?ty = "case map_of (assetUrls st) url of None \<Rightarrow> ''other'' | Some t \<Rightarrow> if t = [] then ''other'' else t"
  let ?found = "extractAssets (env_URL e) sm content ?ty url"
  obtain fin st2 tp2 where af: "add_found (env_URL e) ?found ?st1 tp = (fin, st2, tp2)"
    by (cases "add_found (env_URL e) ?found ?st1 tp") auto
  from add_found_spec [OF af] obtain new where n: "tp2 = tp @ new" "distinct new"
    "set new \<inter> keys ?st1 = {}" "set new \<subseteq> set ?found"
    "map fst (assetUrls st2) = map fst (assetUrls ?st1) @ new"
    "processedAssets st2 = processedAssets ?st1" "requests st2 = requests ?st1" by blast
  have sub: "set new \<subseteq> U" using n(4) assms(2) Inr unfolding closed_under_def by blast
  have k: "keys ?st1 = keys st" by (simp add: keys_def)
  have res: "tp' = tp2 \<and> assetUrls st' = assetUrls st2 \<and> processedAssets st' = processedAssets st2 \<and>
      requests st' = requests st2"
    using assms(1) Inr af by (auto simp: scan_asset_def Let_def split: if_splits)
  show ?thesis using res n sub k by (intro exI [of _ new]) simp
qed

lemma keys_list: "keys st = set (map fst (assetUrls st))"
  by (simp add: keys_def)

text \<open>
  The loop returns and keeps every invariant \<open>I\<close> of its two branches. Each round takes
  one URL off the worklist and adds only URLs of \<open>U\<close> that \<^verbatim>\<open>assetUrls\<close> did not hold, so
  twice the number of unknown URLs of \<open>U\<close> plus the length of the worklist decreases.
\<close>

lemma discover_rule:
  assumes fin: "finite U" and cl: "closed_under e enableSourceMaps U"
    and skip: "\<And>url rest st. I (url # rest) st \<Longrightarrow> url \<in> set (processedAssets st) \<Longrightarrow> I rest st"
    and scan: "\<And>url rest st st1 tp1. I (url # rest) st \<Longrightarrow> url \<notin> set (processedAssets st) \<Longrightarrow>
          scan_asset e enableSourceMaps st rest url = (st1, tp1) \<Longrightarrow> I tp1 st1"
    and start: "I toProcess st"
  shows "\<exists>st'. discover e enableSourceMaps toProcess st = Some st' \<and> I [] st'"
  using start
proof (induction "2 * card (U - keys st) + length toProcess" arbitrary: toProcess st rule: less_induct)
  case less
  show ?case
  proof (cases toProcess)
    case Nil
    with less.prems show ?thesis by (simp add: discover.simps)
  next
    case (Cons url rest)
    show ?thesis
    proof (cases "url \<in> set (processedAssets st)")
      case True
      have "2 * card (U - keys st) + length rest < 2 * card (U - keys st) + length toProcess"
        using Cons by simp
      moreover have "I rest st" using skip less.prems True unfolding Cons by blast
      ultimately obtain st' where "discover e enableSourceMaps rest st = Some st'" "I [] st'"
        using less.hyps by blast
      moreover have "discover e enableSourceMaps toProcess st = discover e enableSourceMaps rest st"
        unfolding Cons using True by (subst discover.simps) simp
      ultimately show ?thesis by auto
    next
      case False
      obtain st1 tp1 where sa: "scan_asset e enableSourceMaps st rest url = (st1, tp1)"
        by (cases "scan_asset e enableSourceMaps st rest url") auto
      from scan_asset_spec [OF sa cl] obtain new where n: "tp1 = rest @ new" "distinct new"
        "set new \<inter> keys st = {}" "set new \<subseteq> U"
        "map fst (assetUrls st1) = map fst (assetUrls st) @ new"
        by blast
      have k1: "keys st1 = keys st \<union> set new" using n(5) by (simp add: keys_list)
      have "U - keys st1 = (U - keys st) - set new" using k1 by auto
      moreover have sub: "set new \<subseteq> U - keys st" using n(3,4) by auto
      ultimately have "card (U - keys st1) = card (U - keys st) - card (set new)"
        using fin by (simp add: card_Diff_subset)
      moreover have "card (set new) \<le> card (U - keys st)"
        using sub fin by (intro card_mono) auto
      moreover have "card (set new) = length new" using n(2) by (simp add: distinct_card)
      ultimately have m: "2 * card (U - keys st1) + length tp1 < 2 * card (U - keys st) + length toProcess"
        using n(1) Cons by simp
      have "I tp1 st1" using scan less.prems False sa unfolding Cons by blast
      with m obtain st' where r: "discover e enableSourceMaps tp1 st1 = Some st'" "I [] st'"
        using less.hyps by blast
      have "discover e enableSourceMaps toProcess st = discover e enableSourceMaps tp1 st1"
        unfolding Cons using False sa by (subst discover.simps) simp
      with r show ?thesis by auto
    qed
  qed
qed

text \<open>
  C6 (the worklist ends, first in first out). Let the references found in any fetched
  content stay inside a finite set \<open>U\<close> of URLs (a finite asset graph, cycles allowed), and
  let every processed URL have been requested once. Then the loop of step 3 returns, from
  any worklist; every URL of the worklist has then been handed to \<^verbatim>\<open>download\<close>, and no URL
  more than once. If moreover the loop starts as the program starts it, the keys of
  \<^verbatim>\<open>assetUrls\<close> (in the order of insertion, without repetition) being the processed URLs
  followed by the worklist, then the URLs were fetched in the order in which they entered
  the worklist: the worklist as it stood first, then every URL found later, in the order
  of finding, which is the order of the keys of \<^verbatim>\<open>assetUrls\<close>.
\<close>

theorem discover_terminates:
  assumes "finite U" and "closed_under e enableSourceMaps U"
    and "requests st = processedAssets st" and "distinct (processedAssets st)"
  shows "\<exists>st'. discover e enableSourceMaps toProcess st = Some st' \<and>
     requests st' = processedAssets st' \<and> distinct (requests st') \<and>
     set toProcess \<subseteq> set (requests st') \<and>
     (map fst (assetUrls st) = processedAssets st @ toProcess \<and> distinct (map fst (assetUrls st)) \<longrightarrow>
        requests st' = map fst (assetUrls st') \<and>
        (\<exists>found. requests st' = requests st @ toProcess @ found))"
proof -
  define P where "P \<longleftrightarrow>
     map fst (assetUrls st) = processedAssets st @ toProcess \<and> distinct (map fst (assetUrls st))"
  define I where "I = (\<lambda>tp (st'::run).
     requests st' = processedAssets st' \<and> distinct (processedAssets st') \<and>
     set toProcess \<subseteq> set (processedAssets st') \<union> set tp \<and>
     (P \<longrightarrow> map fst (assetUrls st') = processedAssets st' @ tp \<and>
            distinct (map fst (assetUrls st')) \<and>
            (\<exists>found. map fst (assetUrls st') = requests st @ toProcess @ found)))"
  have "\<exists>st'. discover e enableSourceMaps toProcess st = Some st' \<and> I [] st'"
  proof (rule discover_rule [OF assms(1,2)])
    have "\<exists>found. map fst (assetUrls st) = requests st @ toProcess @ found" if P
      using that assms(3) unfolding P_def by simp
    then show "I toProcess st" using assms(3,4) unfolding I_def P_def by blast
  next
    fix url rest st0
    assume a: "I (url # rest) st0" "url \<in> set (processedAssets st0)"
    have "\<not> P"
    proof
      assume P
      with a(1) have "map fst (assetUrls st0) = processedAssets st0 @ url # rest \<and>
        distinct (map fst (assetUrls st0))" unfolding I_def by blast
      then have "distinct (processedAssets st0 @ url # rest)" by metis
      with a(2) show False by auto
    qed
    with a show "I rest st0" by (auto simp: I_def)
  next
    fix url rest st0 st1 tp1
    assume a: "I (url # rest) st0" "url \<notin> set (processedAssets st0)"
      "scan_asset e enableSourceMaps st0 rest url = (st1, tp1)"
    from scan_asset_spec [OF a(3) assms(2)] obtain new where n: "tp1 = rest @ new"
      "distinct new" "set new \<inter> keys st0 = {}"
      "map fst (assetUrls st1) = map fst (assetUrls st0) @ new"
      "processedAssets st1 = processedAssets st0 @ [url]" "requests st1 = requests st0 @ [url]"
      by blast
    from a(1) have i: "requests st0 = processedAssets st0" "distinct (processedAssets st0)"
      "set toProcess \<subseteq> set (processedAssets st0) \<union> set (url # rest)"
      by (simp_all add: I_def)
    have 1: "requests st1 = processedAssets st1" using n(5,6) i(1) by simp
    have 2: "distinct (processedAssets st1)" using n(5) i(2) a(2) by simp
    have 3: "set toProcess \<subseteq> set (processedAssets st1) \<union> set tp1" using n(1,5) i(3) by auto
    have 4: "map fst (assetUrls st1) = processedAssets st1 @ tp1 \<and>
        distinct (map fst (assetUrls st1)) \<and>
        (\<exists>found. map fst (assetUrls st1) = requests st @ toProcess @ found)" if P
    proof -
      from a(1) that obtain found where j:
        "map fst (assetUrls st0) = processedAssets st0 @ url # rest"
        "distinct (map fst (assetUrls st0))"
        "map fst (assetUrls st0) = requests st @ toProcess @ found"
        by (auto simp: I_def)
      have "map fst (assetUrls st1) = processedAssets st1 @ tp1" using n(1,4,5) j(1) by simp
      moreover have "distinct (map fst (assetUrls st1))"
        using n(2,3,4) j(2) by (auto simp: keys_list)
      moreover have "map fst (assetUrls st1) = requests st @ toProcess @ (found @ new)"
        using n(4) j(3) by simp
      ultimately show ?thesis by blast
    qed
    from 1 2 3 4 show "I tp1 st1" unfolding I_def by blast
  qed
  then obtain st' where d: "discover e enableSourceMaps toProcess st = Some st'" and i: "I [] st'"
    by blast
  from i have f: "requests st' = processedAssets st'" "distinct (processedAssets st')"
    "set toProcess \<subseteq> set (processedAssets st')"
    by (simp_all add: I_def)
  have o: "requests st' = map fst (assetUrls st') \<and>
      (\<exists>found. requests st' = requests st @ toProcess @ found)" if P
  proof -
    from i that obtain found where k: "map fst (assetUrls st') = processedAssets st'"
      "map fst (assetUrls st') = requests st @ toProcess @ found"
      by (auto simp: I_def)
    have "requests st' = map fst (assetUrls st')" using k(1) f(1) by simp
    moreover have "requests st' = requests st @ toProcess @ found" using k f(1) by simp
    ultimately show ?thesis by blast
  qed
  from d f o show ?thesis unfolding P_def by auto
qed

text \<open>
  A graph with a cycle and two branches: \<^verbatim>\<open>a.js\<close> imports \<^verbatim>\<open>b.js\<close> and \<^verbatim>\<open>c.js\<close>,
  \<^verbatim>\<open>b.js\<close> imports \<^verbatim>\<open>a.js\<close> again and \<^verbatim>\<open>d.js\<close>, \<^verbatim>\<open>c.js\<close> imports \<^verbatim>\<open>e.js\<close>.
\<close>

definition cycle_site :: "(string \<times> string) list" where
  "cycle_site =
     [(''https://x.test/a.js'', ''import(\"https://x.test/b.js\"); import(\"https://x.test/c.js\")''),
      (''https://x.test/b.js'', ''import(\"https://x.test/a.js\"); import(\"https://x.test/d.js\")''),
      (''https://x.test/c.js'', ''import(\"https://x.test/e.js\")''),
      (''https://x.test/d.js'', ''export default 4''),
      (''https://x.test/e.js'', ''export default 5'')]"

definition cycle_urls :: "string set" where
  "cycle_urls = {''https://x.test/a.js'', ''https://x.test/b.js'', ''https://x.test/c.js'',
     ''https://x.test/d.js'', ''https://x.test/e.js''}"

definition cycle_start :: run where
  "cycle_start = (run_init [] [])\<lparr>assetUrls := [(''https://x.test/a.js'', ''js'')]\<rparr>"

lemma cycle_closed: "closed_under (demo_env cycle_site []) False cycle_urls"
  unfolding closed_under_def
proof (intro allI impI)
  fix url content type
  assume "download (demo_env cycle_site []) url = Inr content"
  then have "map_of cycle_site url = Some content"
    by (auto simp: download_def demo_env_def demo_fetch_def split: option.splits if_splits)
  then have "(url, content) \<in> set cycle_site" by (rule map_of_SomeD)
  then have "content \<in> snd ` set cycle_site" by force
  then have c: "content = ''import(\"https://x.test/b.js\"); import(\"https://x.test/c.js\")'' \<or>
      content = ''import(\"https://x.test/a.js\"); import(\"https://x.test/d.js\")'' \<or>
      content = ''import(\"https://x.test/e.js\")'' \<or>
      content = ''export default 4'' \<or> content = ''export default 5''"
    by (auto simp: cycle_site_def)
  have 1: "set (extractAssets ascii_URL False
      ''import(\"https://x.test/b.js\"); import(\"https://x.test/c.js\")'' type url) \<subseteq> cycle_urls"
    by (auto simp add: ev cycle_urls_def)
  have 2: "set (extractAssets ascii_URL False
      ''import(\"https://x.test/a.js\"); import(\"https://x.test/d.js\")'' type url) \<subseteq> cycle_urls"
    by (auto simp add: ev cycle_urls_def)
  have 3: "set (extractAssets ascii_URL False ''import(\"https://x.test/e.js\")'' type url)
      \<subseteq> cycle_urls"
    by (auto simp add: ev cycle_urls_def)
  have 4: "set (extractAssets ascii_URL False ''export default 4'' type url) \<subseteq> cycle_urls"
    by (auto simp add: ev cycle_urls_def)
  have 5: "set (extractAssets ascii_URL False ''export default 5'' type url) \<subseteq> cycle_urls"
    by (auto simp add: ev cycle_urls_def)
  have "env_URL (demo_env cycle_site []) = ascii_URL" by (simp add: demo_env_def)
  with c 1 2 3 4 5
  show "set (extractAssets (env_URL (demo_env cycle_site [])) False content type url) \<subseteq> cycle_urls"
    by metis
qed

lemma cycle_run:
  "discover (demo_env cycle_site []) False [''https://x.test/a.js''] cycle_start =
     Some (cycle_start\<lparr>
        assetUrls := [(''https://x.test/a.js'', ''js''), (''https://x.test/b.js'', ''js''),
                      (''https://x.test/c.js'', ''js''), (''https://x.test/d.js'', ''js''),
                      (''https://x.test/e.js'', ''js'')],
        processedAssets := [''https://x.test/a.js'', ''https://x.test/b.js'', ''https://x.test/c.js'',
                            ''https://x.test/d.js'', ''https://x.test/e.js''],
        console := [Found ''https://x.test/b.js'', Found ''https://x.test/c.js'',
                    Found ''https://x.test/d.js'', Found ''https://x.test/e.js''],
        requests := [''https://x.test/a.js'', ''https://x.test/b.js'', ''https://x.test/c.js'',
                     ''https://x.test/d.js'', ''https://x.test/e.js'']\<rparr>)"
  by (simp add: ev cycle_site_def cycle_start_def)

text \<open>
  On that graph each of the five URLs is requested once, \<^verbatim>\<open>a.js\<close> and \<^verbatim>\<open>b.js\<close> of the
  cycle included, level by level: \<^verbatim>\<open>b.js\<close> and \<^verbatim>\<open>c.js\<close>, found first, go before \<^verbatim>\<open>d.js\<close>
  and \<^verbatim>\<open>e.js\<close>. A worklist served from its end would request \<^verbatim>\<open>c.js\<close> and \<^verbatim>\<open>e.js\<close> before
  \<^verbatim>\<open>b.js\<close>.
\<close>

theorem discover_terminates_witness:
  "\<exists>st'. discover (demo_env cycle_site []) False [''https://x.test/a.js''] cycle_start = Some st' \<and>
     requests st' = [''https://x.test/a.js'', ''https://x.test/b.js'', ''https://x.test/c.js'',
                     ''https://x.test/d.js'', ''https://x.test/e.js''] \<and>
     requests st' = processedAssets st' \<and> distinct (requests st') \<and>
     set [''https://x.test/a.js''] \<subseteq> set (requests st') \<and>
     map fst (assetUrls cycle_start) = processedAssets cycle_start @ [''https://x.test/a.js''] \<and>
     distinct (map fst (assetUrls cycle_start)) \<and>
     requests st' = map fst (assetUrls st') \<and>
     (\<exists>found. requests st' = requests cycle_start @ [''https://x.test/a.js''] @ found)"
proof -
  have f: "finite cycle_urls" by (simp add: cycle_urls_def)
  have r: "requests cycle_start = processedAssets cycle_start"
    by (simp add: cycle_start_def run_init_def)
  have d: "distinct (processedAssets cycle_start)" by (simp add: cycle_start_def run_init_def)
  have k: "map fst (assetUrls cycle_start) = processedAssets cycle_start @ [''https://x.test/a.js''] \<and>
     distinct (map fst (assetUrls cycle_start))"
    by (simp add: cycle_start_def run_init_def)
  from discover_terminates [OF f cycle_closed r d, of "[''https://x.test/a.js'']"]
  obtain st' where 1: "discover (demo_env cycle_site []) False [''https://x.test/a.js''] cycle_start = Some st'"
    and 2: "requests st' = processedAssets st'" "distinct (requests st')"
      "set [''https://x.test/a.js''] \<subseteq> set (requests st')"
    and 3: "map fst (assetUrls cycle_start) = processedAssets cycle_start @ [''https://x.test/a.js''] \<and>
        distinct (map fst (assetUrls cycle_start)) \<longrightarrow>
        requests st' = map fst (assetUrls st') \<and>
        (\<exists>found. requests st' = requests cycle_start @ [''https://x.test/a.js''] @ found)"
    by blast
  from 3 k have 4: "requests st' = map fst (assetUrls st')"
    "\<exists>found. requests st' = requests cycle_start @ [''https://x.test/a.js''] @ found"
    by blast+
  from 1 have 5: "requests st' = [''https://x.test/a.js'', ''https://x.test/b.js'',
      ''https://x.test/c.js'', ''https://x.test/d.js'', ''https://x.test/e.js'']"
    unfolding cycle_run by auto
  from 1 2 4 5 k show ?thesis by blast
qed

text \<open>
  The cycle of two alone: \<^verbatim>\<open>a.js\<close> imports \<^verbatim>\<open>b.js\<close> and \<^verbatim>\<open>b.js\<close> imports \<^verbatim>\<open>a.js\<close>; each is
  requested once, \<^verbatim>\<open>a.js\<close> first.
\<close>

definition two_cycle_site :: "(string \<times> string) list" where
  "two_cycle_site =
     [(''https://x.test/a.js'', ''import(\"https://x.test/b.js\")''),
      (''https://x.test/b.js'', ''import(\"https://x.test/a.js\")'')]"

lemma two_cycle_requests:
  "map_option requests
     (discover (demo_env two_cycle_site []) False [''https://x.test/a.js''] cycle_start) =
   Some [''https://x.test/a.js'', ''https://x.test/b.js'']"
  by (simp add: ev two_cycle_site_def cycle_start_def)

subsection \<open>A fetch that fails\<close>

text \<open>
  A page with an inline script that imports \<^verbatim>\<open>http://\<close>, a reference that is no URL, and
  a script \<^verbatim>\<open>app.js\<close> that is served.
\<close>

definition broken_dom :: "element list" where
  "broken_dom =
     [\<lparr>tag = ''script'', attribs = [], inner = ''import(\"http://\")''\<rparr>,
      \<lparr>tag = ''script'', attribs = [(''src'', ''https://x.test/app.js'')], inner = []\<rparr>]"

definition broken_site :: "(string \<times> string) list" where
  "broken_site =
     [(''https://x.test/'', demo_html broken_dom),
      (''https://x.test/app.js'', ''export default 1'')]"

lemma broken_scan:
  "scan_phase (demo_env broken_site [broken_dom]) ''https://x.test'' [''/''] ''mirror'' False [] [] =
   Some (Inr
     \<lparr>files = [(''/home/u/site/mirror/index.html'',
                ''<html><head><script>import(\"http://\")</script><script src=\"https://x.test/app.js\"></script></head><body></body></html>'')],
      dirs = [''/'', ''/home'', ''/home/u'', ''/home/u/site'', ''/home/u/site/mirror''],
      assetUrls = [(''https://x.test/app.js'', ''js''), (''http://'', ''js'')],
      processedAssets = [''https://x.test/app.js'', ''http://''],
      paths = alloc_init,
      downloadedAssets = [],
      console = [Page ''https://x.test/'', Saved ''index.html'', FailedScan ''http://''],
      requests = [''https://x.test/app.js'', ''http://'']\<rparr>)"
  by (simp add: ev broken_site_def broken_dom_def)

text \<open>
  C7 (failed fetches), at a failing input. Step 2 takes \<^verbatim>\<open>http://\<close> from the inline
  script as it stands. In step 3 its fetch is rejected; the \<^verbatim>\<open>catch\<close> logs the failure and
  the worklist is emptied. Step 4 then calls \<^verbatim>\<open>new URL(url, baseUrl)\<close> for every key of
  \<^verbatim>\<open>assetUrls\<close> outside any \<^verbatim>\<open>try\<close> (step 5 has the same call inside its \<^verbatim>\<open>try\<close>): the
  \<^verbatim>\<open>TypeError\<close> leaves \<^verbatim>\<open>broddy\<close>, and no asset is downloaded or saved.
\<close>

theorem failed_fetch_ends_the_run:
  "download (demo_env broken_site [broken_dom]) ''http://'' = Inl FetchError \<and>
   (\<exists>st. scan_phase (demo_env broken_site [broken_dom]) ''https://x.test'' [''/''] ''mirror'' False
            [] [] = Some (Inr st) \<and>
      requests st = [''https://x.test/app.js'', ''http://''] \<and>
      FailedScan ''http://'' \<in> set (console st) \<and>
      precompute_paths ascii_URL ''https://x.test'' (paths st) (map fst (assetUrls st)) =
        Inl TypeError) \<and>
   broddy (demo_env broken_site [broken_dom]) ''https://x.test'' [''/''] ''mirror'' False [] [] =
     Some (Inl TypeError)"
  unfolding broddy_def broken_scan by (simp add: ev broken_site_def)

subsection \<open>Source maps\<close>

text \<open>
  The scenario of C9: \<^verbatim>\<open>/js/app.js\<close> ends with the single-line directive naming
  \<^verbatim>\<open>maps/app.js.map\<close>, which is served and is JSON; source maps are enabled.
\<close>

definition page_dom4 :: "element list" where
  "page_dom4 = [\<lparr>tag = ''script'', attribs = [(''src'', ''https://x.test/js/app.js'')], inner = []\<rparr>]"

definition site4 :: "(string \<times> string) list" where
  "site4 =
     [(''https://x.test/'', demo_html page_dom4),
      (''https://x.test/js/app.js'', ''var a=1; //# sourceMappingURL=maps/app.js.map''),
      (''https://x.test/js/maps/app.js.map'', ''{\"version\":3}'')]"

lemma site4_run:
  "broddy (demo_env site4 [page_dom4]) ''https://x.test'' [''/''] ''mirror'' True [] [] =
   Some (Inr
     \<lparr>files = [(''/home/u/site/mirror/index.html'',
                ''<html><head><script src=\"https://x.test/js/app.js\"></script></head><body></body></html>''),
               (''/home/u/site/mirror/js/app.js.map'', ''{\"version\":3}''),
               (''/home/u/site/mirror/js/app.js'', ''var a=1; //# sourceMappingURL=maps/app.js.map''),
               (''/home/u/site/mirror/js/maps/app.js.map'', ''{\"version\":3}'')],
      dirs = [''/'', ''/home'', ''/home/u'', ''/home/u/site'', ''/home/u/site/mirror'',
              ''/home/u/site/mirror/js'', ''/home/u/site/mirror/js/maps''],
      assetUrls = [(''https://x.test/js/app.js'', ''js''),
                   (''https://x.test/js/maps/app.js.map'', ''other'')],
      processedAssets = [''https://x.test/js/app.js'', ''https://x.test/js/maps/app.js.map''],
      paths = \<lparr>filePathMap = [''https://x.test/js/app.js'' \<mapsto> ''/js/app.js'',
                                ''https://x.test/js/maps/app.js.map'' \<mapsto> ''/js/maps/app.js.map''],
                usedPaths = [''/js/app.js'', ''/js/maps/app.js.map'']\<rparr>,
      downloadedAssets =
        [(''https://x.test/js/app.js'', ''var a=1; //# sourceMappingURL=maps/app.js.map''),
         (''https://x.test/js/maps/app.js.map'', ''{\"version\":3}'')],
      console = [Page ''https://x.test/'', Saved ''index.html'',
                 Found ''https://x.test/js/maps/app.js.map'',
                 FoundSourceMap ''https://x.test/js/maps/app.js.map'',
                 FailedSourceMap ''https://x.test/js/app.js'', Downloaded ''app.js'',
                 Downloaded ''app.js.map'', Stats 1 2],
      requests = [''https://x.test/js/app.js'', ''https://x.test/js/maps/app.js.map'',
                  ''https://x.test/js/app.js'', ''https://x.test/js/maps/app.js.map'',
                  ''https://x.test/js/maps/app.js.map'']\<rparr>)"
  by (simp add: ev site4_def page_dom4_def)

text \<open>
  C9 (source maps), at the scenario. The map is stored as \<^verbatim>\<open>mirror/js/app.js.map\<close>, but
  the saved script keeps its directive: \<^verbatim>\<open>processedContent\<close> is a \<^verbatim>\<open>Buffer\<close>, the call of
  \<^verbatim>\<open>replace\<close> under the comment that announces the update throws, and the \<^verbatim>\<open>catch\<close> logs
  the failure and stores the downloaded bytes. On the same text as a string the call
  writes the directive the claim expects.
\<close>

theorem source_map_directive_not_rewritten:
  "(\<exists>st. broddy (demo_env site4 [page_dom4]) ''https://x.test'' [''/''] ''mirror'' True [] [] =
          Some (Inr st) \<and>
      env_JSON_parse (demo_env site4 [page_dom4]) ''{\"version\":3}'' \<and>
      map_of (files st) ''/home/u/site/mirror/js/app.js.map'' = Some ''{\"version\":3}'' \<and>
      map_of (files st) ''/home/u/site/mirror/js/app.js'' =
        Some ''var a=1; //# sourceMappingURL=maps/app.js.map'' \<and>
      map_of (files st) ''/home/u/site/mirror/js/app.js'' \<noteq>
        Some ''var a=1; //# sourceMappingURL=app.js.map'' \<and>
      FailedSourceMap ''https://x.test/js/app.js'' \<in> set (console st)) \<and>
   replace_method (Buffer ''var a=1; //# sourceMappingURL=maps/app.js.map'') rx_directive_line
      ''//# sourceMappingURL=app.js.map'' = Inl TypeError \<and>
   replace_method (Str ''var a=1; //# sourceMappingURL=maps/app.js.map'') rx_directive_line
      ''//# sourceMappingURL=app.js.map'' = Inr (Str ''var a=1; //# sourceMappingURL=app.js.map'')"
  unfolding site4_run by (simp add: ev)

section \<open>The rewriter applied twice\<close>

subsection \<open>The matches of the string pattern\<close>





text \<open>
  What \<open>rx_js_string\<close> matches at the start of a text, read off directly: a quote, the
  longest run of characters that are neither quotes nor white space, of the form
  scheme, \<^verbatim>\<open>://\<close>, rest, and the same quote again. \<open>js_token\<close> gives the quote, the
  reference and the text after the match.
\<close>

definition ref_char :: "char \<Rightarrow> bool" where
  "ref_char c = (\<not> is_quote3 c \<and> \<not> is_space c)"






lemma ref_char_scheme: "is_scheme_char c \<Longrightarrow> ref_char c"
  by (auto simp add: is_scheme_char_def is_alpha_def ref_char_def is_quote3_def is_space_def)

lemma ref_char_alpha: "is_alpha c \<Longrightarrow> ref_char c"
  by (rule ref_char_scheme) (simp add: is_scheme_char_def)











subsection \<open>\<^verbatim>\<open>replace\<close> on text without matches to change\<close>







subsection \<open>One pass over a script\<close>

























subsection \<open>The characters of a relative path\<close>
















subsection \<open>\<^verbatim>\<open>rewriteUrls\<close> on its own result\<close>









end
